theory Spec2Isabelle
  imports Complex_Main "HOL-Library.Char_ord" "HOL-Library.List_Lexorder"
begin

section \<open>Python strings\<close>

text \<open>
  A Python \<^verbatim>\<open>str\<close> is modelled as a \<^typ>\<open>string\<close> whose characters are the code
  points 0..255. On these code points \<^verbatim>\<open>str.isspace\<close> holds exactly for the twelve
  characters of \<open>whitespace\<close> below, and letter case is mapped on the ASCII letters;
  the other code points are left unchanged by the case mappings of the model. The
  headers, the language names and the stage names of the program are ASCII, and no
  code point 128..255 is mapped to an ASCII letter by Python either, so that every
  comparison with one of them is decided as in Python.
\<close>

definition whitespace :: "char list" where
  "whitespace = [CHR 0x09, CHR 0x0A, CHR 0x0B, CHR 0x0C, CHR 0x0D, CHR 0x1C, CHR 0x1D,
     CHR 0x1E, CHR 0x1F, CHR 0x20, CHR 0x85, CHR 0xA0]"

definition is_space :: "char \<Rightarrow> bool" where
  "is_space c = (c \<in> set whitespace)"

definition ascii_upper :: "char list" where
  "ascii_upper = ''ABCDEFGHIJKLMNOPQRSTUVWXYZ''"

definition ascii_lower :: "char list" where
  "ascii_lower = ''abcdefghijklmnopqrstuvwxyz''"

definition lower_char :: "char \<Rightarrow> char" where
  "lower_char c = (case map_of (zip ascii_upper ascii_lower) c of Some d \<Rightarrow> d | None \<Rightarrow> c)"

definition upper_char :: "char \<Rightarrow> char" where
  "upper_char c = (case map_of (zip ascii_lower ascii_upper) c of Some d \<Rightarrow> d | None \<Rightarrow> c)"

definition is_cased :: "char \<Rightarrow> bool" where
  "is_cased c = (c \<in> set ascii_upper \<or> c \<in> set ascii_lower)"

text \<open>\<^verbatim>\<open>str.lower()\<close>.\<close>

definition lower_py :: "string \<Rightarrow> string" where
  "lower_py s = map lower_char s"

text \<open>\<^verbatim>\<open>str.strip()\<close> with no argument: leading and trailing whitespace removed.\<close>

definition strip_py :: "string \<Rightarrow> string" where
  "strip_py s = rev (dropWhile is_space (rev (dropWhile is_space s)))"

text \<open>
  \<^verbatim>\<open>str.title()\<close>: a character that follows a cased character is lower-cased, any
  other character is title-cased (upper-cased, on ASCII).
\<close>

fun title_from :: "bool \<Rightarrow> string \<Rightarrow> string" where
  "title_from previous_is_cased [] = []"
| "title_from previous_is_cased (c # cs) =
     (if previous_is_cased then lower_char c else upper_char c) # title_from (is_cased c) cs"

definition title_py :: "string \<Rightarrow> string" where
  "title_py s = title_from False s"

text \<open>\<^verbatim>\<open>sub in s\<close> for strings.\<close>

fun contains_py :: "string \<Rightarrow> string \<Rightarrow> bool" where
  "contains_py sub [] = (sub = [])"
| "contains_py sub (c # cs) = (take (length sub) (c # cs) = sub \<or> contains_py sub cs)"

text \<open>\<^verbatim>\<open>sep.join(xs)\<close>.\<close>

fun join_py :: "string \<Rightarrow> string list \<Rightarrow> string" where
  "join_py sep [] = []"
| "join_py sep [x] = x"
| "join_py sep (x # y # xs) = x @ sep @ join_py sep (y # xs)"

section \<open>The regular expressions of the report assembler\<close>

text \<open>
  The four searches of \<^verbatim>\<open>process_chat\<close> (lines 273--285 and again 433--445) are
  \<^verbatim>\<open>re.search(r"H:(.*?)(?:S1:|S2:|$)", text, re.DOTALL | re.IGNORECASE)\<close> for the first
  three headers and \<^verbatim>\<open>re.search(r"Allergy/Safety Note:(.*)", ...)\<close> for the last one.

  \<open>match_literal p s\<close>: the literal \<open>p\<close> matches at the start of \<open>s\<close> under
  \<^verbatim>\<open>re.IGNORECASE\<close>.
\<close>

fun match_literal :: "string \<Rightarrow> string \<Rightarrow> bool" where
  "match_literal [] s = True"
| "match_literal (p # ps) [] = False"
| "match_literal (p # ps) (c # cs) = (lower_char p = lower_char c \<and> match_literal ps cs)"

text \<open>
  \<open>lazy_group stops s\<close>: what \<^verbatim>\<open>(.*?)\<close> captures when it is followed by
  \<^verbatim>\<open>(?:stop1|...|$)\<close> and starts at the beginning of \<open>s\<close>. The group grows one
  character at a time (with \<^verbatim>\<open>re.DOTALL\<close> every character is taken) until an
  alternative matches; \<^verbatim>\<open>$\<close> matches at the end of the text and just before a
  newline that ends the text.
\<close>

fun lazy_group :: "string list \<Rightarrow> string \<Rightarrow> string" where
  "lazy_group stops [] = []"
| "lazy_group stops (c # cs) =
     (if (\<exists>h \<in> set stops. match_literal h (c # cs)) \<or> c # cs = [CHR 0x0A] then []
      else c # lazy_group stops cs)"

text \<open>
  \<open>re_search_lazy h stops text\<close>: group 1 of the leftmost match of
  \<^verbatim>\<open>h(.*?)(?:stops|$)\<close>, or \<open>None\<close> when \<^verbatim>\<open>re.search\<close> returns \<^verbatim>\<open>None\<close>. The
  search tries the start positions from left to right; where the header matches, the
  rest of the pattern always matches, since \<^verbatim>\<open>$\<close> matches at the end of the text.
\<close>

fun re_search_lazy :: "string \<Rightarrow> string list \<Rightarrow> string \<Rightarrow> string option" where
  "re_search_lazy h stops [] =
     (if match_literal h [] then Some (lazy_group stops (drop (length h) [])) else None)"
| "re_search_lazy h stops (c # cs) =
     (if match_literal h (c # cs) then Some (lazy_group stops (drop (length h) (c # cs)))
      else re_search_lazy h stops cs)"

text \<open>\<open>re_search_greedy h text\<close>: group 1 of the leftmost match of \<^verbatim>\<open>h(.*)\<close>.\<close>

fun re_search_greedy :: "string \<Rightarrow> string \<Rightarrow> string option" where
  "re_search_greedy h [] = (if match_literal h [] then Some (drop (length h) []) else None)"
| "re_search_greedy h (c # cs) =
     (if match_literal h (c # cs) then Some (drop (length h) (c # cs))
      else re_search_greedy h cs)"

definition hdr_diagnosis :: string where
  "hdr_diagnosis = ''Diagnosis:''"

definition hdr_drug :: string where
  "hdr_drug = ''Proposed New Drug:''"

definition hdr_dosage :: string where
  "hdr_dosage = ''Hypothetical Dosage/Instructions:''"

definition hdr_safety :: string where
  "hdr_safety = ''Allergy/Safety Note:''"

text \<open>\<^verbatim>\<open>m.group(1).strip() if m else "Not found"\<close>.\<close>

definition group_or_not_found :: "string option \<Rightarrow> string" where
  "group_or_not_found m = (case m of Some g \<Rightarrow> strip_py g | None \<Rightarrow> ''Not found'')"

record fields =
  diagnosis :: string
  drug_concept :: string
  dosage :: string
  safety :: string

text \<open>
  The extraction of the four fields from the full response (\<^verbatim>\<open>process_chat\<close>, lines
  433--445; the spec's \<^verbatim>\<open>extractFields\<close>).
\<close>

definition extractFields :: "string \<Rightarrow> fields" where
  "extractFields full_response =
     (let diagnosis_match =
            re_search_lazy hdr_diagnosis [hdr_drug, hdr_dosage, hdr_safety] full_response;
          drug_match = re_search_lazy hdr_drug [hdr_dosage, hdr_safety] full_response;
          dosage_match = re_search_lazy hdr_dosage [hdr_safety] full_response;
          safety_match = re_search_greedy hdr_safety full_response
      in \<lparr>diagnosis = group_or_not_found diagnosis_match,
          drug_concept = group_or_not_found drug_match,
          dosage = group_or_not_found dosage_match,
          safety = group_or_not_found safety_match\<rparr>)"

section \<open>The field extraction as the specification words it\<close>

text \<open>
  \<open>header_at h text i\<close>: the header \<open>h\<close> stands in \<open>text\<close> at position \<open>i\<close>, in any
  letter case.
\<close>

definition header_at :: "string \<Rightarrow> string \<Rightarrow> nat \<Rightarrow> bool" where
  "header_at h text i =
     (i + length h \<le> length text \<and> lower_py (take (length h) (drop i text)) = lower_py h)"

text \<open>
  \<open>spec_field h later text\<close>: the text from just after the first header \<open>h\<close> up to the
  start of the next header among \<open>later\<close>, or to the end of the text, trimmed;
  \<open>Not found\<close> when the header is absent.
\<close>

definition spec_field :: "string \<Rightarrow> string list \<Rightarrow> string \<Rightarrow> string" where
  "spec_field h later text =
     (case find (header_at h text) [0..<Suc (length text)] of
        None \<Rightarrow> ''Not found''
      | Some i \<Rightarrow>
          (let start = i + length h in
           case find (\<lambda>j. \<exists>s \<in> set later. header_at s text j) [start..<length text] of
             None \<Rightarrow> strip_py (drop start text)
           | Some j \<Rightarrow> strip_py (take (j - start) (drop start text))))"

text \<open>\<open>header_present h text\<close>: the header stands somewhere in the text.\<close>

definition header_present :: "string \<Rightarrow> string \<Rightarrow> bool" where
  "header_present h text = (\<exists>i \<in> set [0..<Suc (length text)]. header_at h text i)"

section \<open>Python values, the language table and the completion service\<close>

text \<open>
  The values the program keeps in its session dictionary and passes as language codes
  are \<^verbatim>\<open>None\<close> or a \<^verbatim>\<open>str\<close>.
\<close>

datatype pyval = PyNone | PyStr string

text \<open>Truth value of a Python value: \<^verbatim>\<open>None\<close> and the empty string are false.\<close>

fun truthy :: "pyval \<Rightarrow> bool" where
  "truthy PyNone = False"
| "truthy (PyStr s) = (s \<noteq> [])"

text \<open>\<^verbatim>\<open>str(v)\<close>, as an f-string formats the value.\<close>

fun py_str :: "pyval \<Rightarrow> string" where
  "py_str PyNone = ''None''"
| "py_str (PyStr s) = s"

definition nl :: string where
  "nl = [CHR 0x0A]"

definition apos :: string where
  "apos = [CHR 0x27]"

text \<open>\<^verbatim>\<open>LANG_CODES\<close> (lines 28--33), in the order of the dictionary.\<close>

definition LANG_CODES :: "(string \<times> string) list" where
  "LANG_CODES =
     [(''English'', ''en''), (''Arabic'', ''ar''), (''German'', ''de''), (''Spanish'', ''es''),
      (''French'', ''fr''), (''Hindi'', ''hi''), (''Italian'', ''it''), (''Japanese'', ''ja''),
      (''Korean'', ''ko''), (''Portuguese'', ''pt''), (''Russian'', ''ru''), (''Chinese'', ''zh''),
      (''Bengali'', ''bn''), (''Tamil'', ''ta''), (''Telugu'', ''te''), (''Thai'', ''th''),
      (''Ukrainian'', ''uk''), (''Turkish'', ''tr''), (''Vietnamese'', ''vi''),
      (''Kannada'', ''kn'')]"

text \<open>
  An exception (a subclass of \<^verbatim>\<open>Exception\<close>) with the text \<^verbatim>\<open>str(e)\<close>; a missing
  dictionary key raises \<^verbatim>\<open>KeyError\<close>, whose text is the key in quotes.
\<close>

datatype exn = Exception string

fun str_exn :: "exn \<Rightarrow> string" where
  "str_exn (Exception m) = m"

definition KeyError :: "string \<Rightarrow> exn" where
  "KeyError k = Exception (apos @ k @ apos)"

text \<open>One entry of \<^verbatim>\<open>gemini_chat_history_manual\<close>: \<^verbatim>\<open>{"role": r, "parts": [{"text": t}]}\<close>.\<close>

datatype turn = Turn (role: string) (parts_text: string)

text \<open>
  The two requests the program sends to the completion service:
  \<^verbatim>\<open>generate_content(prompt, GenerationConfig(temperature=temp))\<close> and
  \<^verbatim>\<open>start_chat(history=h).send_message(prompt)\<close>. A client answers a request in a state
  \<open>'w\<close> of the outside world with the text of the response (\<^verbatim>\<open>response.text\<close>) or
  with an exception, and leaves a new state of the world. \<^verbatim>\<open>gemini_client\<close> is
  \<open>None\<close> when the initialisation failed (lines 48--55).
\<close>

datatype request = GenerateContent string real | SendMessage "turn list" string

type_synonym 'w client = "request \<Rightarrow> 'w \<Rightarrow> (exn + string) \<times> 'w"

text \<open>\<^verbatim>\<open>c if c in LANG_CODES.values() else fallback\<close>.\<close>

definition effective_code :: "pyval \<Rightarrow> string \<Rightarrow> string" where
  "effective_code c fallback =
     (case c of
        PyStr s \<Rightarrow> if s \<in> set (map snd LANG_CODES) then s else fallback
      | PyNone \<Rightarrow> fallback)"

text \<open>\<^verbatim>\<open>next((name for name, code in LANG_CODES.items() if code == c), c)\<close>.\<close>

definition lang_name :: "string \<Rightarrow> string" where
  "lang_name c = (case find (\<lambda>(name, code). code = c) LANG_CODES of
                    Some (name, code) \<Rightarrow> name | None \<Rightarrow> c)"

text \<open>The prompt of lines 75--80, from the effective source and target codes.\<close>

definition translation_prompt :: "string \<Rightarrow> string \<Rightarrow> string \<Rightarrow> string" where
  "translation_prompt effective_src_lang_code effective_tgt_lang_code text =
     (let tgt_lang_name = lang_name effective_tgt_lang_code
      in if effective_src_lang_code \<noteq> ''auto''
         then ''Translate the following text from '' @ lang_name effective_src_lang_code
              @ '' to '' @ tgt_lang_name @ '':'' @ nl @ nl @ text
         else ''Translate the following text to '' @ tgt_lang_name @ '':'' @ nl @ nl @ text)"

text \<open>
  \<^verbatim>\<open>gemini_translate\<close> (lines 58--87). The \<^verbatim>\<open>except Exception\<close> clause of lines 85--87
  is the \<open>Inl\<close> branch of the request.
\<close>

definition gemini_translate ::
  "'w client option \<Rightarrow> string \<Rightarrow> pyval \<Rightarrow> pyval \<Rightarrow> real \<Rightarrow> 'w \<Rightarrow> string \<times> 'w" where
  "gemini_translate gemini_client text src_lang_code tgt_lang_code temp w =
     (case gemini_client of
        None \<Rightarrow> (text, w)
      | Some client \<Rightarrow>
          if text = [] \<or> strip_py text = [] then ([], w)
          else
            let effective_src_lang_code = effective_code src_lang_code ''auto'';
                effective_tgt_lang_code = effective_code tgt_lang_code ''en''
            in if effective_src_lang_code \<noteq> ''auto''
                  \<and> effective_src_lang_code = effective_tgt_lang_code
               then (text, w)
               else
                 let prompt =
                       translation_prompt effective_src_lang_code effective_tgt_lang_code text
                 in case client (GenerateContent prompt temp) w of
                      (Inr response_text, w') \<Rightarrow> (strip_py response_text, w')
                    | (Inl e, w') \<Rightarrow> (text, w'))"

text \<open>The message of lines 111--116 for a failed request.\<close>

definition error_text :: "exn \<Rightarrow> string" where
  "error_text e =
     (let error_detail = lower_py (str_exn e)
      in if contains_py ''401'' error_detail \<or> contains_py ''unauthorized'' error_detail
         then ''Error: Unauthorized. Check your API key. '' @ str_exn e
         else if contains_py ''429'' error_detail \<or> contains_py ''quota'' error_detail
         then ''Error: Rate limit exceeded. Try again later. '' @ str_exn e
         else ''Error communicating with Gemini API: '' @ str_exn e)"

text \<open>\<^verbatim>\<open>get_gemini_response\<close> (lines 89--116).\<close>

definition get_gemini_response ::
  "'w client option \<Rightarrow> string \<Rightarrow> turn list option \<Rightarrow> real \<Rightarrow> 'w \<Rightarrow> string \<times> 'w" where
  "get_gemini_response gemini_client prompt_text chat_history temp w =
     (case gemini_client of
        None \<Rightarrow> (''Error: Gemini API not available. Cannot provide medical information.'', w)
      | Some client \<Rightarrow>
          let formatted_history = (case chat_history of None \<Rightarrow> [] | Some h \<Rightarrow> h);
              req = (if formatted_history \<noteq> [] then SendMessage formatted_history prompt_text
                     else GenerateContent prompt_text temp)
          in case client req w of
               (Inr response_text, w') \<Rightarrow> (response_text, w')
             | (Inl e, w') \<Rightarrow> (error_text e, w'))"

section \<open>The session state\<close>

text \<open>
  The session state is a Python dictionary. Each field of the record is one key:
  \<open>None\<close> when the dictionary has no such key, \<open>Some v\<close> when it holds \<open>v\<close>. Reading
  a missing key with \<^verbatim>\<open>state[k]\<close> raises \<^verbatim>\<open>KeyError\<close>; \<^verbatim>\<open>state.get(k, d)\<close> gives
  \<open>d\<close>.
\<close>

record chat_state =
  stage :: "pyval option"
  language :: "pyval option"
  lang_code :: "pyval option"
  symptoms_user_lang :: "pyval option"
  symptoms_en :: "pyval option"
  allergies_user_lang :: "pyval option"
  allergies_en :: "pyval option"
  diagnosis_en :: "pyval option"
  drug_concept_full_en :: "pyval option"
  gemini_chat_history_manual :: "turn list option"
  translated_summary :: "pyval option"

definition dict_get :: "'a option \<Rightarrow> 'a \<Rightarrow> 'a" where
  "dict_get entry fallback = (case entry of None \<Rightarrow> fallback | Some v \<Rightarrow> v)"

definition CHAT_STAGE_ASK_LANGUAGE :: string where
  "CHAT_STAGE_ASK_LANGUAGE = ''ask_language''"

definition CHAT_STAGE_ASK_SYMPTOMS :: string where
  "CHAT_STAGE_ASK_SYMPTOMS = ''ask_symptoms''"

definition CHAT_STAGE_ASK_ALLERGIES :: string where
  "CHAT_STAGE_ASK_ALLERGIES = ''ask_allergies''"

definition CHAT_STAGE_GENERATE_RESPONSE :: string where
  "CHAT_STAGE_GENERATE_RESPONSE = ''generate_response''"

definition CHAT_STAGE_GENERAL_QNA :: string where
  "CHAT_STAGE_GENERAL_QNA = ''general_qna''"

text \<open>\<^verbatim>\<open>initialize_chat_state\<close> (lines 229--241); it has no key \<^verbatim>\<open>translated_summary\<close>.\<close>

definition initialize_chat_state :: chat_state where
  "initialize_chat_state =
     \<lparr>stage = Some (PyStr CHAT_STAGE_ASK_LANGUAGE),
      language = Some PyNone,
      lang_code = Some PyNone,
      symptoms_user_lang = Some PyNone,
      symptoms_en = Some PyNone,
      allergies_user_lang = Some PyNone,
      allergies_en = Some PyNone,
      diagnosis_en = Some PyNone,
      drug_concept_full_en = Some PyNone,
      gemini_chat_history_manual = Some [],
      translated_summary = None\<rparr>"

section \<open>The export renderer\<close>

text \<open>
  The calls on the \<^verbatim>\<open>FPDF\<close> object, in the order in which \<^verbatim>\<open>generate_pdf_report\<close>
  makes them: \<^verbatim>\<open>cell(w, h, txt, border, ln, align)\<close>, \<^verbatim>\<open>multi_cell(w, h, txt)\<close>,
  \<^verbatim>\<open>set_font(family, style, size)\<close>, \<^verbatim>\<open>ln(h)\<close>.
\<close>

datatype pdf_op =
    AliasNbPages
  | AddPage
  | SetFont string string nat
  | Cell nat nat string nat nat string
  | MultiCell nat nat string
  | Ln nat

text \<open>
  \<^verbatim>\<open>_sanitize_text\<close> (line 146) replaces the characters that Latin-1 cannot encode;
  the code points 0..255 of the model are all encoded and decoded unchanged.
\<close>

definition sanitize_text :: "string \<Rightarrow> string" where
  "sanitize_text text = text"

text \<open>
  \<^verbatim>\<open>s.split(sep)\<close> for a non-empty separator: the text is scanned from the left, and
  each occurrence of the separator closes the current chunk.
\<close>

fun split_scan :: "string \<Rightarrow> string \<Rightarrow> string \<Rightarrow> string list" where
  "split_scan sep chunk [] = [chunk]"
| "split_scan sep chunk (c # cs) =
     (if sep \<noteq> [] \<and> take (length sep) (c # cs) = sep
      then chunk # split_scan sep [] (drop (length sep - 1) cs)
      else split_scan sep (chunk @ [c]) cs)"

definition split_py :: "string \<Rightarrow> string \<Rightarrow> string list" where
  "split_py sep s = split_scan sep [] s"

text \<open>\<^verbatim>\<open>s.split(sep, 1)\<close> for a separator of one character.\<close>

definition split_once :: "char \<Rightarrow> string \<Rightarrow> string list" where
  "split_once sep s =
     (case dropWhile (\<lambda>c. c \<noteq> sep) s of
        [] \<Rightarrow> [s]
      | c # rest \<Rightarrow> [takeWhile (\<lambda>c. c \<noteq> sep) s, rest])"

text \<open>The body of the loop over the sections (lines 182--204).\<close>

fun add_sections :: "string list \<Rightarrow> pdf_op list" where
  "add_sections [] = []"
| "add_sections (section # sections) =
     (if strip_py section = [] then add_sections sections
      else
        (case split_once CHR '':'' section of
           [t, c] \<Rightarrow>
             [SetFont ''Arial'' ''B'' 12,
              Cell 0 10 (sanitize_text (strip_py t @ '':'')) 0 1 ''L'',
              SetFont ''Arial'' [] 10,
              MultiCell 0 5 (sanitize_text (strip_py c)),
              Ln 5]
         | parts \<Rightarrow>
             [SetFont ''Arial'' [] 10,
              MultiCell 0 5 (sanitize_text section),
              Ln 5])
        @ add_sections sections)"

text \<open>The calls of lines 164--176 and of lines 207--210.\<close>

definition pdf_preamble :: "string \<Rightarrow> pdf_op list" where
  "pdf_preamble user_language =
     [AliasNbPages, AddPage,
      SetFont ''Arial'' ''B'' 16,
      Cell 0 10 ''PharmaGPT Medical Report'' 0 1 ''C'',
      Ln 5,
      SetFont ''Arial'' ''I'' 10,
      Cell 0 10 (''Report in '' @ user_language) 0 1 ''C'',
      Ln 10]"

definition pdf_disclaimer :: "pdf_op list" where
  "pdf_disclaimer =
     [SetFont ''Arial'' ''B'' 12,
      Cell 0 10 ''Disclaimer:'' 0 1 ''L'',
      SetFont ''Arial'' ''I'' 10,
      MultiCell 0 5
        ''This is an AI-generated report for conceptual purposes only. Consult a medical professional.'']"

text \<open>The calls of lines 164--210 for a summary that is not empty.\<close>

definition pdf_document :: "string \<Rightarrow> string \<Rightarrow> pdf_op list" where
  "pdf_document user_language summary =
     pdf_preamble user_language @ add_sections (split_py ''###'' summary) @ pdf_disclaimer"

text \<open>
  \<^verbatim>\<open>generate_pdf_report\<close> (lines 148--219). \<open>output path doc\<close> is \<^verbatim>\<open>pdf.output(path)\<close>
  for the document built by the calls \<open>doc\<close>: \<open>None\<close> when the file is written, the
  exception otherwise. The result is the path of the file, or \<open>None\<close>.
\<close>

definition generate_pdf_report ::
  "(string \<Rightarrow> pdf_op list \<Rightarrow> exn option) \<Rightarrow> chat_state \<Rightarrow> string option" where
  "generate_pdf_report output state_data =
     (let user_language = dict_get (language state_data) (PyStr ''English'');
          summary = dict_get (translated_summary state_data) (PyStr [])
      in if \<not> truthy summary then None
         else
           let pdf_output_path = ''./pharma_gpt_report.pdf''
           in case output pdf_output_path
                     (pdf_document (py_str user_language) (py_str summary)) of
                None \<Rightarrow> Some pdf_output_path
              | Some e \<Rightarrow> None)"

section \<open>The dialogue sequencer\<close>

text \<open>\<^verbatim>\<open>f"**{label}:** {value}\n\n"\<close> and \<^verbatim>\<open>f"### {title}:\n{value}\n\n"\<close>.\<close>

definition bold_line :: "string \<Rightarrow> string \<Rightarrow> string" where
  "bold_line label v = ''**'' @ label @ '':** '' @ v @ nl @ nl"

definition heading_block :: "string \<Rightarrow> string \<Rightarrow> string" where
  "heading_block title v = ''### '' @ title @ '':'' @ nl @ v @ nl @ nl"

text \<open>
  Lines 264--306: the two summaries that a turn returns unless the allergy stage
  replaces them. The translations are requested in the order of the source.
\<close>

definition previous_summary ::
  "'w client option \<Rightarrow> chat_state \<Rightarrow> pyval \<Rightarrow> 'w \<Rightarrow> (string \<times> string) \<times> 'w" where
  "previous_summary gc state user_lang_code w =
     (if truthy (dict_get (drug_concept_full_en state) PyNone) then
        (let full_response = py_str (dict_get (drug_concept_full_en state) PyNone);
             f = extractFields full_response;
             english_summary =
               bold_line ''Symptoms'' (py_str (dict_get (symptoms_en state) (PyStr ''N/A'')))
               @ bold_line ''Allergies'' (py_str (dict_get (allergies_en state) (PyStr ''N/A'')))
               @ bold_line ''Diagnosis'' (diagnosis f)
               @ bold_line ''Drug Concept'' (drug_concept f)
               @ bold_line ''Dosage'' (dosage f)
               @ bold_line ''Safety'' (safety f);
             (translated_diagnosis, w1) =
               gemini_translate gc (diagnosis f) (PyStr ''en'') user_lang_code 0.1 w;
             (translated_drug, w2) =
               gemini_translate gc (drug_concept f) (PyStr ''en'') user_lang_code 0.1 w1;
             (translated_dosage, w3) =
               gemini_translate gc (dosage f) (PyStr ''en'') user_lang_code 0.1 w2;
             (translated_safety, w4) =
               gemini_translate gc (safety f) (PyStr ''en'') user_lang_code 0.1 w3;
             (symptoms_label, w5) =
               gemini_translate gc ''Symptoms'' (PyStr ''en'') user_lang_code 0.1 w4;
             (allergies_label, w6) =
               gemini_translate gc ''Allergies'' (PyStr ''en'') user_lang_code 0.1 w5;
             (diagnosis_label, w7) =
               gemini_translate gc ''Diagnosis'' (PyStr ''en'') user_lang_code 0.1 w6;
             (drug_label, w8) =
               gemini_translate gc ''Drug Concept'' (PyStr ''en'') user_lang_code 0.1 w7;
             (dosage_label, w9) =
               gemini_translate gc ''Dosage'' (PyStr ''en'') user_lang_code 0.1 w8;
             (safety_label, w10) =
               gemini_translate gc ''Safety'' (PyStr ''en'') user_lang_code 0.1 w9;
             translated_summary =
               bold_line symptoms_label
                 (py_str (dict_get (symptoms_user_lang state) (PyStr ''N/A'')))
               @ bold_line allergies_label
                   (py_str (dict_get (allergies_user_lang state) (PyStr ''N/A'')))
               @ bold_line diagnosis_label translated_diagnosis
               @ bold_line drug_label translated_drug
               @ bold_line dosage_label translated_dosage
               @ bold_line safety_label translated_safety
         in ((english_summary, translated_summary), w10))
      else
        ((''Report summary will appear here after diagnosis.'',
          ''Translated report summary will appear here.''), w))"

text \<open>The stage \<^verbatim>\<open>ask_language\<close> (lines 309--342).\<close>

definition ask_language ::
  "'w client option \<Rightarrow> string \<Rightarrow> chat_state \<Rightarrow> string \<Rightarrow> string \<Rightarrow> 'w \<Rightarrow>
     (exn + string \<times> string \<times> string \<times> chat_state) \<times> 'w" where
  "ask_language gc message state english_summary translated_summary_out w =
     (let selected_language = title_py (strip_py message)
      in case map_of LANG_CODES selected_language of
           Some code \<Rightarrow>
             (let state1 = state\<lparr>language := Some (PyStr selected_language),
                                 lang_code := Some (PyStr code),
                                 stage := Some (PyStr CHAT_STAGE_ASK_SYMPTOMS)\<rparr>;
                  user_lang_code = PyStr code;
                  welcome_message_en =
                    ''Thank you. Your selected language is '' @ selected_language @ ''.'';
                  next_prompt_en = ''Please describe your symptoms.'';
                  bot_response_en = welcome_message_en @ nl @ nl @ next_prompt_en;
                  (welcome_message, w1) =
                    gemini_translate gc welcome_message_en (PyStr ''en'') user_lang_code 0.1 w;
                  (next_prompt, w2) =
                    gemini_translate gc next_prompt_en (PyStr ''en'') user_lang_code 0.1 w1;
                  bot_response_user_lang = welcome_message @ nl @ nl @ next_prompt
              in case gemini_chat_history_manual state1 of
                   None \<Rightarrow> (Inl (KeyError ''gemini_chat_history_manual''), w2)
                 | Some h \<Rightarrow>
                     (Inr (bot_response_user_lang, english_summary, translated_summary_out,
                        state1\<lparr>gemini_chat_history_manual :=
                          Some (h @ [Turn ''user''
                                       (''User selected language: '' @ selected_language),
                                     Turn ''model'' bot_response_en])\<rparr>), w2))
         | None \<Rightarrow>
             (let available_languages = join_py '', '' (sort (map fst LANG_CODES));
                  error_message_en =
                    ''Sorry, '' @ apos @ message @ apos
                    @ '' is not a supported language. Please select from: ''
                    @ available_languages
              in (Inr (error_message_en, english_summary, translated_summary_out, state), w)))"

text \<open>The stage \<^verbatim>\<open>ask_symptoms\<close> (lines 344--368).\<close>

definition ask_symptoms ::
  "'w client option \<Rightarrow> string \<Rightarrow> string \<Rightarrow> pyval \<Rightarrow> chat_state \<Rightarrow> string \<Rightarrow> string \<Rightarrow> 'w \<Rightarrow>
     (exn + string \<times> string \<times> string \<times> chat_state) \<times> 'w" where
  "ask_symptoms gc message user_message_en user_lang_code state english_summary
       translated_summary_out w =
     (if \<not> truthy user_lang_code then
        (Inr (''Error: Language not set. Please start over.'', english_summary,
           translated_summary_out, initialize_chat_state), w)
      else if strip_py message = [] then
        (let bot_response_en = ''Please describe your symptoms so I can assist you.'';
             (bot_response_user_lang, w1) =
               gemini_translate gc bot_response_en (PyStr ''en'') user_lang_code 0.1 w
         in (Inr (bot_response_user_lang, english_summary, translated_summary_out, state), w1))
      else
        (let state1 = state\<lparr>symptoms_user_lang := Some (PyStr (strip_py message)),
                            symptoms_en := Some (PyStr user_message_en),
                            stage := Some (PyStr CHAT_STAGE_ASK_ALLERGIES)\<rparr>;
             bot_response_en =
               ''Thank you for sharing your symptoms. Do you have any known allergies? If none, please say ''
               @ apos @ ''None'' @ apos @ ''.'';
             (bot_response_user_lang, w1) =
               gemini_translate gc bot_response_en (PyStr ''en'') user_lang_code 0.1 w
         in case gemini_chat_history_manual state1 of
              None \<Rightarrow> (Inl (KeyError ''gemini_chat_history_manual''), w1)
            | Some h \<Rightarrow>
                (Inr (bot_response_user_lang, english_summary, translated_summary_out,
                   state1\<lparr>gemini_chat_history_manual :=
                     Some (h @ [Turn ''user'' (''Symptoms: '' @ user_message_en),
                                Turn ''model'' bot_response_en])\<rparr>), w1)))"

text \<open>The prompt of lines 403--417 and the context of lines 511--519.\<close>

definition diagnosis_prompt :: "string \<Rightarrow> string \<Rightarrow> string" where
  "diagnosis_prompt symptoms allergies =
     (let ind = replicate 16 CHR '' '' in
      ''Based on the following symptoms and allergies, provide:'' @ nl
      @ ind @ ''1. A potential diagnosis'' @ nl
      @ ind @ ''2. A hypothetical new drug concept that could treat this condition'' @ nl
      @ ind @ ''3. Hypothetical dosage instructions'' @ nl
      @ ind @ ''4. Safety considerations related to the patient'' @ apos @ ''s allergies'' @ nl
      @ nl
      @ ind @ ''Symptoms: '' @ symptoms @ nl
      @ ind @ ''Allergies: '' @ allergies @ nl
      @ nl
      @ ind @ ''Format your response with these exact headings:'' @ nl
      @ ind @ ''Diagnosis:'' @ nl
      @ ind @ ''Proposed New Drug:'' @ nl
      @ ind @ ''Hypothetical Dosage/Instructions:'' @ nl
      @ ind @ ''Allergy/Safety Note:'' @ nl
      @ ind)"

definition qna_context :: "chat_state \<Rightarrow> string \<Rightarrow> string" where
  "qna_context state user_message_en =
     (let ind = replicate 12 CHR '' '' in
      nl
      @ ind @ ''Previous symptoms: ''
            @ py_str (dict_get (symptoms_en state) (PyStr ''None'')) @ nl
      @ ind @ ''Previous allergies: ''
            @ py_str (dict_get (allergies_en state) (PyStr ''None'')) @ nl
      @ ind @ ''Previous diagnosis and drug concept: ''
            @ py_str (dict_get (drug_concept_full_en state) (PyStr ''None'')) @ nl
      @ ind @ nl
      @ ind @ ''User question: '' @ user_message_en @ nl
      @ ind @ nl
      @ ind @ ''Respond in a clear, concise way that would be easy to translate to another language.''
      @ nl
      @ ind)"

text \<open>
  Lines 432--485: the four fields are cut out of the response, each is sent to the
  service to be simplified, titles and simplified fields are translated, and the two
  summaries are put together. Line 480 reads \<^verbatim>\<open>state['symptoms_user_lang']\<close>.
\<close>

definition build_summaries ::
  "'w client option \<Rightarrow> string \<Rightarrow> string \<Rightarrow> string \<Rightarrow> pyval option \<Rightarrow> string \<Rightarrow> pyval \<Rightarrow> 'w \<Rightarrow>
     (exn + string \<times> string) \<times> 'w" where
  "build_summaries gc diagnosis_response symptoms allergies symptoms_user_entry
       allergies_user user_lang_code w =
     (let f = extractFields diagnosis_response;
          (diagnosis_simplified, w1) =
            get_gemini_response gc
              (''Simplify this medical diagnosis into 2-3 short bullet points: '' @ diagnosis f)
              None 0.7 w;
          (drug_concept_simplified, w2) =
            get_gemini_response gc
              (''Simplify this drug concept into 2-3 short bullet points about what it is and how it works: ''
               @ drug_concept f)
              None 0.7 w1;
          (dosage_simplified, w3) =
            get_gemini_response gc
              (''Simplify this dosage information into 2-3 short bullet points about dosage amount, frequency, and how to take it: ''
               @ dosage f)
              None 0.7 w2;
          (safety_simplified, w4) =
            get_gemini_response gc
              (''Simplify this safety information into 2-3 short bullet points about allergies and side effects: ''
               @ safety f)
              None 0.7 w3;
          english_summary =
            bold_line ''Symptoms'' symptoms
            @ bold_line ''Allergies'' allergies
            @ bold_line ''Diagnosis'' diagnosis_simplified
            @ bold_line ''Medicine'' drug_concept_simplified
            @ bold_line ''Dosage'' dosage_simplified
            @ bold_line ''Safety Notes'' safety_simplified;
          (symptoms_title, w5) =
            gemini_translate gc ''Symptoms'' (PyStr ''en'') user_lang_code 0.1 w4;
          (allergies_title, w6) =
            gemini_translate gc ''Allergies'' (PyStr ''en'') user_lang_code 0.1 w5;
          (diagnosis_title, w7) =
            gemini_translate gc ''Diagnosis'' (PyStr ''en'') user_lang_code 0.1 w6;
          (drug_title, w8) =
            gemini_translate gc ''Medicine'' (PyStr ''en'') user_lang_code 0.1 w7;
          (dosage_title, w9) =
            gemini_translate gc ''Dosage'' (PyStr ''en'') user_lang_code 0.1 w8;
          (safety_title, w10) =
            gemini_translate gc ''Safety Notes'' (PyStr ''en'') user_lang_code 0.1 w9;
          (translated_diagnosis, w11) =
            gemini_translate gc diagnosis_simplified (PyStr ''en'') user_lang_code 0.1 w10;
          (translated_drug, w12) =
            gemini_translate gc drug_concept_simplified (PyStr ''en'') user_lang_code 0.1 w11;
          (translated_dosage, w13) =
            gemini_translate gc dosage_simplified (PyStr ''en'') user_lang_code 0.1 w12;
          (translated_safety, w14) =
            gemini_translate gc safety_simplified (PyStr ''en'') user_lang_code 0.1 w13
      in case symptoms_user_entry of
           None \<Rightarrow> (Inl (KeyError ''symptoms_user_lang''), w14)
         | Some symptoms_user \<Rightarrow>
             (Inr (english_summary,
                   heading_block symptoms_title (py_str symptoms_user)
                   @ heading_block allergies_title allergies_user
                   @ heading_block diagnosis_title translated_diagnosis
                   @ heading_block drug_title translated_drug
                   @ heading_block dosage_title translated_dosage
                   @ heading_block safety_title translated_safety), w14))"

text \<open>
  The stage \<^verbatim>\<open>ask_allergies\<close> (lines 370--488). Lines 390--397 write the processing
  message into the last entry of the chat history, which line 536 overwrites before
  the turn returns; the model keeps the request that translates the message.
\<close>

definition ask_allergies ::
  "'w client option \<Rightarrow> string \<Rightarrow> string \<Rightarrow> pyval \<Rightarrow> chat_state \<Rightarrow> string \<Rightarrow> string \<Rightarrow> 'w \<Rightarrow>
     (exn + string \<times> string \<times> string \<times> chat_state) \<times> 'w" where
  "ask_allergies gc message user_message_en user_lang_code state english_summary
       translated_summary_out w =
     (if \<not> truthy user_lang_code then
        (Inr (''Error: Language not set. Please start over.'', english_summary,
           translated_summary_out, initialize_chat_state), w)
      else
        (let state1 = state\<lparr>allergies_user_lang := Some (PyStr (strip_py message)),
                            allergies_en := Some (PyStr user_message_en),
                            stage := Some (PyStr CHAT_STAGE_GENERATE_RESPONSE)\<rparr>
         in case gemini_chat_history_manual state1 of
              None \<Rightarrow> (Inl (KeyError ''gemini_chat_history_manual''), w)
            | Some h \<Rightarrow>
                (let state2 = state1\<lparr>gemini_chat_history_manual :=
                       Some (h @ [Turn ''user'' (''Allergies: '' @ user_message_en)])\<rparr>;
                     processing_message_en =
                       ''Thank you. I'' @ apos
                       @ ''m analyzing your symptoms and allergies to generate a diagnosis and drug concept. This may take a moment...'';
                     (processing_message, w1) =
                       gemini_translate gc processing_message_en (PyStr ''en'') user_lang_code
                         0.1 w
                 in case symptoms_en state2 of
                      None \<Rightarrow> (Inl (KeyError ''symptoms_en''), w1)
                    | Some symptoms \<Rightarrow>
                        (let allergies = user_message_en;
                             prompt = diagnosis_prompt (py_str symptoms) allergies;
                             (diagnosis_response, w2) = get_gemini_response gc prompt None 0.7 w1;
                             state3 = state2\<lparr>drug_concept_full_en :=
                                                Some (PyStr diagnosis_response),
                                              stage := Some (PyStr CHAT_STAGE_GENERAL_QNA)\<rparr>;
                             bot_response_en = diagnosis_response;
                             (bot_response_user_lang, w3) =
                               gemini_translate gc diagnosis_response (PyStr ''en'')
                                 user_lang_code 0.1 w2;
                             state4 = state3\<lparr>gemini_chat_history_manual :=
                               Some (h @ [Turn ''user'' (''Allergies: '' @ user_message_en),
                                          Turn ''model'' bot_response_en])\<rparr>
                         in case build_summaries gc diagnosis_response (py_str symptoms)
                                   allergies (symptoms_user_lang state4) (strip_py message)
                                   user_lang_code w3 of
                              (Inl e, w4) \<Rightarrow> (Inl e, w4)
                            | (Inr (english_summary', translated_summary'), w4) \<Rightarrow>
                                (Inr (bot_response_user_lang, english_summary',
                                   translated_summary',
                                   state4\<lparr>translated_summary :=
                                             Some (PyStr translated_summary')\<rparr>), w4)))))"

text \<open>
  The stage \<^verbatim>\<open>general_qna\<close> (lines 490--530); lines 501--508 write a processing
  message that line 536 overwrites.
\<close>

definition general_qna ::
  "'w client option \<Rightarrow> string \<Rightarrow> pyval \<Rightarrow> chat_state \<Rightarrow> string \<Rightarrow> string \<Rightarrow> 'w \<Rightarrow>
     (exn + string \<times> string \<times> string \<times> chat_state) \<times> 'w" where
  "general_qna gc user_message_en user_lang_code state english_summary
       translated_summary_out w =
     (case gemini_chat_history_manual state of
        None \<Rightarrow> (Inl (KeyError ''gemini_chat_history_manual''), w)
      | Some h \<Rightarrow>
          (let state1 = state\<lparr>gemini_chat_history_manual :=
                 Some (h @ [Turn ''user'' user_message_en])\<rparr>;
               processing_message_en = ''I'' @ apos @ ''m thinking about your question...'';
               (processing_message, w1) =
                 gemini_translate gc processing_message_en (PyStr ''en'') user_lang_code 0.1 w;
               context = qna_context state1 user_message_en;
               (qna_response, w2) = get_gemini_response gc context None 0.7 w1;
               bot_response_en = qna_response;
               (bot_response_user_lang, w3) =
                 gemini_translate gc qna_response (PyStr ''en'') user_lang_code 0.1 w2
           in (Inr (bot_response_user_lang, english_summary, translated_summary_out,
                 state1\<lparr>gemini_chat_history_manual :=
                   Some (h @ [Turn ''user'' user_message_en,
                              Turn ''model'' bot_response_en])\<rparr>), w3)))"

text \<open>
  The body of the \<^verbatim>\<open>try\<close> block of \<^verbatim>\<open>process_chat\<close> (lines 253--530): the reply in
  the language of the user, the two summaries and the new state, or the exception
  that leaves the block.
\<close>

definition process_chat_try ::
  "'w client option \<Rightarrow> string \<Rightarrow> chat_state \<Rightarrow> 'w \<Rightarrow>
     (exn + string \<times> string \<times> string \<times> chat_state) \<times> 'w" where
  "process_chat_try gc message state w =
     (case stage state of
        None \<Rightarrow> (Inl (KeyError ''stage''), w)
      | Some current_stage \<Rightarrow>
          (let user_lang_code = dict_get (lang_code state) (PyStr ''en'');
               (user_message_en, w1) =
                 (if user_lang_code \<noteq> PyStr ''en'' \<and> user_lang_code \<noteq> PyNone
                     \<and> strip_py message \<noteq> []
                  then gemini_translate gc message user_lang_code (PyStr ''en'') 0.1 w
                  else (message, w));
               ((english_summary, translated_summary_out), w2) =
                 previous_summary gc state user_lang_code w1
           in if current_stage = PyStr CHAT_STAGE_ASK_LANGUAGE then
                ask_language gc message state english_summary translated_summary_out w2
              else if current_stage = PyStr CHAT_STAGE_ASK_SYMPTOMS then
                ask_symptoms gc message user_message_en user_lang_code state english_summary
                  translated_summary_out w2
              else if current_stage = PyStr CHAT_STAGE_ASK_ALLERGIES then
                ask_allergies gc message user_message_en user_lang_code state english_summary
                  translated_summary_out w2
              else if current_stage = PyStr CHAT_STAGE_GENERAL_QNA then
                general_qna gc user_message_en user_lang_code state english_summary
                  translated_summary_out w2
              else (Inr ([], english_summary, translated_summary_out, state), w2)))"

text \<open>
  Lines 534--540 and 549--555: the reply is written into the last entry of the chat
  history, which is the entry that line 250 appended.
\<close>

definition set_last_reply ::
  "(string \<times> string) list \<Rightarrow> string \<Rightarrow> string \<Rightarrow> (string \<times> string) list" where
  "set_last_reply history message reply =
     (if history \<noteq> [] then butlast history @ [(fst (last history), reply)]
      else [(message, reply)])"

definition error_message :: "exn \<Rightarrow> string" where
  "error_message e =
     ''An error occurred: '' @ str_exn e
     @ ''. Please try again or restart the conversation.''"

text \<open>
  \<^verbatim>\<open>process_chat\<close> (lines 244--557): the chat history, the two summaries and the
  session state that the turn returns.
\<close>

definition process_chat ::
  "'w client option \<Rightarrow> string \<Rightarrow> (string \<times> string) list option \<Rightarrow> chat_state \<Rightarrow> 'w \<Rightarrow>
     ((string \<times> string) list \<times> string \<times> string \<times> chat_state) \<times> 'w" where
  "process_chat gc message history state w =
     (let history1 = (case history of None \<Rightarrow> [] | Some h \<Rightarrow> h) @ [(message, [])]
      in case process_chat_try gc message state w of
           (Inr (bot_response_user_lang, english_summary, translated_summary_out, state'), w') \<Rightarrow>
             ((set_last_reply history1 message bot_response_user_lang, english_summary,
               translated_summary_out, state'), w')
         | (Inl e, w') \<Rightarrow>
             ((set_last_reply history1 message (error_message e),
               ''Error: '' @ error_message e, ''Error: '' @ error_message e,
               initialize_chat_state), w'))"

section \<open>The events of the user interface\<close>

text \<open>
  The buttons of \<^verbatim>\<open>create_interface\<close> (lines 759--805): sending a message runs
  \<^verbatim>\<open>process_chat\<close>, the download button runs \<^verbatim>\<open>generate_pdf_report\<close> and leaves the
  session as it is, and the button for a new consultation puts the initial state in
  place.
\<close>

datatype ui_event = Send string | DownloadReport | NewConsultation

type_synonym ui = "(string \<times> string) list \<times> string \<times> string \<times> chat_state"

fun handle_event :: "'w client option \<Rightarrow> ui_event \<Rightarrow> ui \<times> 'w \<Rightarrow> ui \<times> 'w" where
  "handle_event gc (Send message) ((chatbot, english_summary, translated_summary_out, state), w) =
     process_chat gc message (Some chatbot) state w"
| "handle_event gc DownloadReport u = u"
| "handle_event gc NewConsultation (u, w) =
     (([], [], ''Your report will appear here after diagnosis in your chosen language.'',
       initialize_chat_state), w)"

text \<open>The session states that a sequence of events goes through, the first one included.\<close>

fun session_trace :: "'w client option \<Rightarrow> ui_event list \<Rightarrow> ui \<times> 'w \<Rightarrow> chat_state list" where
  "session_trace gc [] u = [snd (snd (snd (fst u)))]"
| "session_trace gc (ev # evs) u =
     snd (snd (snd (fst u))) # session_trace gc evs (handle_event gc ev u)"

section \<open>The export renderer as the specification words it\<close>

definition titled_section :: "string \<Rightarrow> string \<Rightarrow> pdf_op list" where
  "titled_section title body =
     [SetFont ''Arial'' ''B'' 12,
      Cell 0 10 (strip_py title @ '':'') 0 1 ''L'',
      SetFont ''Arial'' [] 10,
      MultiCell 0 5 (strip_py body),
      Ln 5]"

definition body_section :: "string \<Rightarrow> pdf_op list" where
  "body_section chunk = [SetFont ''Arial'' [] 10, MultiCell 0 5 chunk, Ln 5]"

text \<open>
  One chunk: split once on the first colon into a title and a body when a colon is
  present, else the whole chunk as a body.
\<close>

definition section_of_chunk :: "string \<Rightarrow> pdf_op list" where
  "section_of_chunk chunk =
     (if CHR '':'' \<in> set chunk
      then titled_section (takeWhile (\<lambda>c. c \<noteq> CHR '':'') chunk)
             (tl (dropWhile (\<lambda>c. c \<noteq> CHR '':'') chunk))
      else body_section chunk)"

text \<open>The sections of the claim as it is stated: one for each non-empty chunk.\<close>

definition sections_of_nonempty_chunks :: "string list \<Rightarrow> pdf_op list" where
  "sections_of_nonempty_chunks chunks =
     concat (map section_of_chunk (filter (\<lambda>chunk. chunk \<noteq> []) chunks))"

text \<open>The sections of the amended claim: one for each chunk that is not blank.\<close>

definition sections_of_nonblank_chunks :: "string list \<Rightarrow> pdf_op list" where
  "sections_of_nonblank_chunks chunks =
     concat (map section_of_chunk (filter (\<lambda>chunk. strip_py chunk \<noteq> []) chunks))"

section \<open>The dialogue as the specification words it\<close>

text \<open>The position of a stage in the order of the scripted dialogue.\<close>

definition stage_rank :: "chat_state \<Rightarrow> nat option" where
  "stage_rank s =
     (if stage s = Some (PyStr CHAT_STAGE_ASK_LANGUAGE) then Some 0
      else if stage s = Some (PyStr CHAT_STAGE_ASK_SYMPTOMS) then Some 1
      else if stage s = Some (PyStr CHAT_STAGE_ASK_ALLERGIES) then Some 2
      else if stage s = Some (PyStr CHAT_STAGE_GENERATE_RESPONSE) then Some 3
      else if stage s = Some (PyStr CHAT_STAGE_GENERAL_QNA) then Some 4
      else None)"

text \<open>The stage stays where it is or moves to a later position.\<close>

definition stage_forward :: "chat_state \<Rightarrow> chat_state \<Rightarrow> bool" where
  "stage_forward s s' =
     (stage s' = stage s
      \<or> (case (stage_rank s, stage_rank s') of (Some i, Some j) \<Rightarrow> i < j | _ \<Rightarrow> False))"

text \<open>
  The changes of stage that one turn makes; the allergy turn passes through
  \<^verbatim>\<open>generate_response\<close> (line 378) and ends in \<^verbatim>\<open>general_qna\<close> (line 421).
\<close>

definition turn_transitions :: "(string \<times> string) list" where
  "turn_transitions =
     [(CHAT_STAGE_ASK_LANGUAGE, CHAT_STAGE_ASK_SYMPTOMS),
      (CHAT_STAGE_ASK_SYMPTOMS, CHAT_STAGE_ASK_ALLERGIES),
      (CHAT_STAGE_ASK_ALLERGIES, CHAT_STAGE_GENERAL_QNA)]"

definition stage_step :: "chat_state \<Rightarrow> chat_state \<Rightarrow> bool" where
  "stage_step s s' =
     (stage s' = stage s
      \<or> (\<exists>(a, b) \<in> set turn_transitions. stage s = Some (PyStr a) \<and> stage s' = Some (PyStr b)))"

text \<open>
  An input is a supported language name in some capitalization: it is equal, up to
  letter case, to one of the names of \<^verbatim>\<open>LANG_CODES\<close>.
\<close>

definition supported_language :: "string \<Rightarrow> string \<Rightarrow> bool" where
  "supported_language name message =
     (name \<in> set (map fst LANG_CODES) \<and> lower_py message = lower_py name)"

definition supported_input :: "string \<Rightarrow> bool" where
  "supported_input message = (\<exists>name \<in> set (map fst LANG_CODES). supported_language name message)"

text \<open>What a turn that raises no exception does to the state.\<close>

definition turn_effect :: "string \<Rightarrow> chat_state \<Rightarrow> chat_state \<Rightarrow> bool" where
  "turn_effect message state s' \<longleftrightarrow>
     s' = initialize_chat_state \<or> s' = state
     \<or> (stage state = Some (PyStr CHAT_STAGE_ASK_LANGUAGE)
         \<and> stage s' = Some (PyStr CHAT_STAGE_ASK_SYMPTOMS)
         \<and> language s' = Some (PyStr (title_py (strip_py message)))
         \<and> map_of LANG_CODES (title_py (strip_py message)) \<noteq> None
         \<and> lang_code s' = map_option PyStr (map_of LANG_CODES (title_py (strip_py message))))
     \<or> (stage state = Some (PyStr CHAT_STAGE_ASK_SYMPTOMS)
         \<and> stage s' = Some (PyStr CHAT_STAGE_ASK_ALLERGIES)
         \<and> lang_code s' = lang_code state \<and> language s' = language state)
     \<or> (stage state = Some (PyStr CHAT_STAGE_ASK_ALLERGIES)
         \<and> stage s' = Some (PyStr CHAT_STAGE_GENERAL_QNA)
         \<and> lang_code s' = lang_code state \<and> language s' = language state)
     \<or> (stage state = Some (PyStr CHAT_STAGE_GENERAL_QNA)
         \<and> (\<exists>h. s' = state\<lparr>gemini_chat_history_manual := Some h\<rparr>))"

section \<open>Resets and the request of the diagnosis\<close>

text \<open>
  The user interface with the state of the outside world after each event of a
  sequence, the first one included.
\<close>

fun session_run :: "'w client option \<Rightarrow> ui_event list \<Rightarrow> ui \<times> 'w \<Rightarrow> (ui \<times> 'w) list" where
  "session_run gc [] u = [u]"
| "session_run gc (ev # evs) u = u # session_run gc evs (handle_event gc ev u)"

text \<open>The body of the \<^verbatim>\<open>try\<close> block of the turn raises an exception.\<close>

definition turn_raises :: "'w client option \<Rightarrow> string \<Rightarrow> chat_state \<Rightarrow> 'w \<Rightarrow> bool" where
  "turn_raises gc message state w =
     (case fst (process_chat_try gc message state w) of Inl e \<Rightarrow> True | Inr r \<Rightarrow> False)"

text \<open>
  The error of lines 345--348 and 371--374: the session waits for symptoms or for
  allergies and holds no language code.
\<close>

definition language_not_set :: "chat_state \<Rightarrow> bool" where
  "language_not_set state =
     ((stage state = Some (PyStr CHAT_STAGE_ASK_SYMPTOMS)
       \<or> stage state = Some (PyStr CHAT_STAGE_ASK_ALLERGIES))
      \<and> \<not> truthy (dict_get (lang_code state) (PyStr ''en'')))"

text \<open>
  The events that reset the session: the button for a new consultation, and a message
  whose turn raises an exception or meets the error that no language is set.
\<close>

fun reset_event :: "'w client option \<Rightarrow> ui_event \<Rightarrow> ui \<times> 'w \<Rightarrow> bool" where
  "reset_event gc NewConsultation u = True"
| "reset_event gc DownloadReport u = False"
| "reset_event gc (Send message) ((chatbot, english_summary, translated_summary_out, state), w) =
     (turn_raises gc message state w \<or> language_not_set state)"

text \<open>
  A session dictionary as the program builds it: the keys that a turn reads with
  \<^verbatim>\<open>state[k]\<close> are there, and the language code is set once the language stage is
  left.
\<close>

definition well_formed :: "chat_state \<Rightarrow> bool" where
  "well_formed state =
     (stage state \<noteq> None \<and> gemini_chat_history_manual state \<noteq> None
      \<and> symptoms_en state \<noteq> None \<and> symptoms_user_lang state \<noteq> None
      \<and> \<not> language_not_set state)"



section \<open>Sample inputs\<close>

definition sample_report :: string where
  "sample_report = ''DIAGNOSIS:  cold '' @ [CHR 0x0A] @ ''Allergy/safety note: none'' @ [CHR 0x0A]"


text \<open>A service that fails every request, and one that gives the same answer to every request; the state of the world counts the requests.\<close>

definition failing_client :: "nat client" where
  "failing_client req w = (Inl (Exception ''boom''), Suc w)"

definition canned_client :: "string \<Rightarrow> nat client" where
  "canned_client reply req w = (Inr reply, Suc w)"

text \<open>A file system that writes every document.\<close>

definition output_ok :: "string \<Rightarrow> pdf_op list \<Rightarrow> exn option" where
  "output_ok path doc = None"

text \<open>A session that holds a summary of two chunks with headings.\<close>

definition sample_export_state :: chat_state where
  "sample_export_state =
     initialize_chat_state\<lparr>language := Some (PyStr ''English''),
       translated_summary := Some (PyStr ''### A: x### B: y'')\<rparr>"

text \<open>The user interface when the page is opened.\<close>

definition initial_ui :: ui where
  "initial_ui =
     ([], [], ''Your report will appear here after diagnosis in your chosen language.'',
      initialize_chat_state)"

text \<open>A session after the diagnosis, a session that waits for the allergies, and a dictionary without the key \<^verbatim>\<open>stage\<close>.\<close>

definition sample_qna_state :: chat_state where
  "sample_qna_state =
     \<lparr>stage = Some (PyStr CHAT_STAGE_GENERAL_QNA),
      language = Some (PyStr ''English''),
      lang_code = Some (PyStr ''en''),
      symptoms_user_lang = Some (PyStr ''cough''),
      symptoms_en = Some (PyStr ''cough''),
      allergies_user_lang = Some (PyStr ''none''),
      allergies_en = Some (PyStr ''none''),
      diagnosis_en = Some PyNone,
      drug_concept_full_en = Some (PyStr ''Diagnosis: cold''),
      gemini_chat_history_manual = Some [Turn ''user'' ''Allergies: none'', Turn ''model'' ''Diagnosis: cold''],
      translated_summary = Some (PyStr ''### Diagnosis: cold'')\<rparr>"


definition sample_broken_state :: chat_state where
  "sample_broken_state = initialize_chat_state\<lparr>stage := None\<rparr>"

text \<open>The session \<open>sample_qna_state\<close> after the question \<open>why?\<close> and the answer \<open>because\<close>.\<close>

definition sample_qna_result :: chat_state where
  "sample_qna_result = sample_qna_state\<lparr>gemini_chat_history_manual :=
       Some [Turn ''user'' ''Allergies: none'', Turn ''model'' ''Diagnosis: cold'',
             Turn ''user'' ''why?'', Turn ''model'' ''because'']\<rparr>"




text \<open>A session that waits for the symptoms and holds no language.\<close>

definition sample_no_language_state :: chat_state where
  "sample_no_language_state =
     initialize_chat_state\<lparr>stage := Some (PyStr CHAT_STAGE_ASK_SYMPTOMS)\<rparr>"

section \<open>The field extraction\<close>

lemma match_literal_iff:
  "match_literal h s \<longleftrightarrow> length h \<le> length s \<and> lower_py (take (length h) s) = lower_py h"
  by (induction h s rule: match_literal.induct) (auto simp: lower_py_def)

lemma header_at_drop:
  "i \<le> length text \<Longrightarrow> header_at h text i = match_literal h (drop i text)"
  by (auto simp: header_at_def match_literal_iff)

lemma find_map_comp: "find P (map f xs) = map_option f (find (P \<circ> f) xs)"
  by (induction xs) auto

lemma find_upt_Suc:
  "find P [0..<Suc n] = (if P 0 then Some 0 else map_option Suc (find (P \<circ> Suc) [0..<n]))"
proof -
  have "[0..<Suc n] = 0 # map Suc [0..<n]"
    by (simp add: upt_conv_Cons map_Suc_upt del: upt_Suc)
  then show ?thesis by (simp add: find_map_comp del: upt_Suc)
qed

lemma re_search_lazy_find:
  "re_search_lazy h stops s =
     (case find (\<lambda>i. match_literal h (drop i s)) [0..<Suc (length s)] of
        None \<Rightarrow> None
      | Some i \<Rightarrow> Some (lazy_group stops (drop (i + length h) s)))"
proof (induction s)
  case Nil
  show ?case by simp
next
  case (Cons c cs)
  show ?case
    apply (subst find_upt_Suc)
    apply (simp add: Cons.IH comp_def del: upt_Suc split: option.splits)
    done
qed

lemma strip_py_snoc_space:
  assumes "is_space c"
  shows "strip_py (xs @ [c]) = strip_py xs"
proof (cases "\<forall>x \<in> set xs. is_space x")
  case True
  have a: "dropWhile is_space xs = []"
    using True by simp
  have b: "dropWhile is_space (xs @ [c]) = []"
    unfolding dropWhile_eq_Nil_conv using True assms by simp
  show ?thesis
    unfolding strip_py_def a b by simp
next
  case False
  then show ?thesis
    by (auto simp: strip_py_def dropWhile_append assms)
qed

lemma is_space_newline: "is_space (CHR 0x0A)"
  by (simp add: is_space_def whitespace_def)

lemma lazy_group_find:
  "strip_py (lazy_group stops s) =
   strip_py (case find (\<lambda>j. \<exists>h \<in> set stops. match_literal h (drop j s)) [0..<length s] of
               None \<Rightarrow> s | Some j \<Rightarrow> take j s)"
proof -
  let ?P = "\<lambda>s j. \<exists>h \<in> set stops. match_literal h (drop j s)"
  let ?E = "\<lambda>s. case find (?P s) [0..<length s] of None \<Rightarrow> s | Some j \<Rightarrow> take j s"
  have D: "lazy_group stops s = ?E s \<or> lazy_group stops s @ [CHR 0x0A] = ?E s"
  proof (induction s)
    case Nil
    show ?case by simp
  next
    case (Cons c cs)
    show ?case
    proof (cases "?P (c # cs) 0")
      case True
      then show ?thesis by (simp add: find_upt_Suc del: upt_Suc)
    next
      case False
      have E: "?E (c # cs) = c # ?E cs"
        using False by (simp add: find_upt_Suc comp_def del: upt_Suc split: option.splits)
      show ?thesis
      proof (cases "cs = [] \<and> c = CHR 0x0A")
        case True
        with False show ?thesis by simp
      next
        case nl: False
        with False have "lazy_group stops (c # cs) = c # lazy_group stops cs" by auto
        with E Cons.IH show ?thesis by auto
      qed
    qed
  qed
  show ?thesis
  proof (cases "lazy_group stops s = ?E s")
    case True
    then show ?thesis by simp
  next
    case False
    with D have "lazy_group stops s @ [CHR 0x0A] = ?E s" by blast
    then have "strip_py (?E s) = strip_py (lazy_group stops s @ [CHR 0x0A])" by simp
    also have "\<dots> = strip_py (lazy_group stops s)"
      by (rule strip_py_snoc_space [OF is_space_newline])
    finally show ?thesis by simp
  qed
qed

lemma find_upt_shift:
  "a \<le> b \<Longrightarrow> find P [a..<b] = map_option (\<lambda>j. j + a) (find (\<lambda>j. P (j + a)) [0..<b - a])"
proof -
  assume "a \<le> b"
  then have "[a..<b] = map (\<lambda>j. j + a) [0..<b - a]"
    by (simp add: map_add_upt)
  then show ?thesis by (simp add: find_map_comp comp_def)
qed

lemma lazy_field_spec:
  "group_or_not_found (re_search_lazy h stops text) = spec_field h stops text"
proof -
  have F: "find (\<lambda>i. match_literal h (drop i text)) [0..<Suc (length text)] =
           find (header_at h text) [0..<Suc (length text)]"
    by (rule find_cong) (auto simp: header_at_drop simp del: upt_Suc)
  show ?thesis
  proof (cases "find (header_at h text) [0..<Suc (length text)]")
    case None
    then show ?thesis
      by (simp add: re_search_lazy_find F spec_field_def group_or_not_found_def del: upt_Suc)
  next
    case (Some i)
    then have hi: "header_at h text i" by (auto simp: find_Some_iff simp del: upt_Suc)
    define start where "start = i + length h"
    have le: "start \<le> length text" using hi by (simp add: header_at_def start_def)
    define rest where "rest = drop start text"
    have G: "find (\<lambda>j. \<exists>s \<in> set stops. header_at s text j) [start..<length text] =
             map_option (\<lambda>j. j + start)
               (find (\<lambda>j. \<exists>s \<in> set stops. match_literal s (drop j rest)) [0..<length rest])"
    proof -
      have "find (\<lambda>j. \<exists>s \<in> set stops. header_at s text (j + start)) [0..<length text - start] =
            find (\<lambda>j. \<exists>s \<in> set stops. match_literal s (drop j rest)) [0..<length rest]"
        by (rule find_cong) (auto simp: rest_def header_at_drop add.commute)
      then show ?thesis using find_upt_shift [OF le] by simp
    qed
    show ?thesis
      using Some le
      by (simp add: re_search_lazy_find F spec_field_def group_or_not_found_def lazy_group_find
          G start_def [symmetric] rest_def [symmetric] del: upt_Suc split: option.splits)
  qed
qed

lemma re_search_greedy_find:
  "re_search_greedy h s =
     (case find (\<lambda>i. match_literal h (drop i s)) [0..<Suc (length s)] of
        None \<Rightarrow> None
      | Some i \<Rightarrow> Some (drop (i + length h) s))"
proof (induction s)
  case Nil
  show ?case by simp
next
  case (Cons c cs)
  show ?case
    apply (subst find_upt_Suc)
    apply (simp add: Cons.IH comp_def del: upt_Suc split: option.splits)
    done
qed

lemma greedy_field_spec:
  "group_or_not_found (re_search_greedy h text) = spec_field h [] text"
proof -
  have F: "find (\<lambda>i. match_literal h (drop i text)) [0..<Suc (length text)] =
           find (header_at h text) [0..<Suc (length text)]"
    by (rule find_cong) (auto simp: header_at_drop simp del: upt_Suc)
  have N: "find (\<lambda>j. False) xs = None" for xs :: "nat list"
    by (induction xs) auto
  show ?thesis
    by (simp add: re_search_greedy_find F spec_field_def group_or_not_found_def N
        del: upt_Suc split: option.splits)
qed

lemma header_present_iff: "header_present h text \<longleftrightarrow> (\<exists>i. header_at h text i)"
proof
  assume "header_present h text"
  then show "\<exists>i. header_at h text i" by (auto simp: header_present_def simp del: upt_Suc)
next
  assume "\<exists>i. header_at h text i"
  then obtain i where i: "header_at h text i" ..
  then have "i \<le> length text" by (simp add: header_at_def)
  with i show "header_present h text"
    by (auto simp: header_present_def simp del: upt_Suc)
qed

lemma strip_py_decomp: "\<exists>a b. x = a @ strip_py x @ b"
proof -
  define y where "y = dropWhile is_space x"
  have "rev (dropWhile is_space (rev y)) @ rev (takeWhile is_space (rev y)) =
        rev (takeWhile is_space (rev y) @ dropWhile is_space (rev y))"
    by (simp only: rev_append)
  also have "\<dots> = y" by (simp only: takeWhile_dropWhile_id rev_rev_ident)
  finally have "y = rev (dropWhile is_space (rev y)) @ rev (takeWhile is_space (rev y))"
    by simp
  moreover have "x = takeWhile is_space x @ y" by (simp add: y_def)
  ultimately have "x = takeWhile is_space x @ strip_py x @ rev (takeWhile is_space (rev y))"
    by (simp add: strip_py_def y_def)
  then show ?thesis by blast
qed

lemma header_at_embed:
  assumes "header_at s m j"
  shows "header_at s (a @ m @ b) (length a + j)"
  using assms by (simp add: header_at_def)

lemma header_at_strip:
  assumes "header_at s (strip_py x) k"
  shows "\<exists>n. header_at s x (n + k)"
proof -
  obtain a b where x: "x = a @ strip_py x @ b" using strip_py_decomp by blast
  have "header_at s (a @ strip_py x @ b) (length a + k)"
    by (rule header_at_embed [OF assms])
  with x show ?thesis by metis
qed

lemma header_at_take:
  assumes "header_at s (take n x) j"
  shows "header_at s x j \<and> j + length s \<le> n"
  using assms by (auto simp: header_at_def take_drop min_def split: if_splits)

lemma header_at_of_drop:
  assumes "header_at s (drop n text) j" "s \<noteq> []"
  shows "header_at s text (n + j) \<and> n + j < length text"
  using assms by (cases s) (auto simp: header_at_def add.commute)

lemma spec_field_no_later:
  assumes s: "s \<in> set later" "s \<noteq> []" and nf: "\<not> header_present s ''Not found''"
  shows "\<not> header_present s (spec_field h later text)"
proof
  assume "header_present s (spec_field h later text)"
  then obtain k where k: "header_at s (spec_field h later text) k"
    by (auto simp: header_present_iff)
  let ?P = "\<lambda>j. \<exists>s \<in> set later. header_at s text j"
  show False
  proof (cases "find (header_at h text) [0..<Suc (length text)]")
    case None
    with k have "header_at s ''Not found'' k" by (simp add: spec_field_def del: upt_Suc)
    with nf show False by (auto simp: header_present_iff)
  next
    case (Some i)
    define start where "start = i + length h"
    show False
    proof (cases "find ?P [start..<length text]")
      case None
      with Some k have "header_at s (strip_py (drop start text)) k"
        by (simp add: spec_field_def start_def Let_def del: upt_Suc)
      then obtain n where "header_at s (drop start text) (n + k)"
        using header_at_strip by blast
      then have "header_at s text (start + (n + k))" "start + (n + k) < length text"
        using header_at_of_drop s(2) by blast+
      then have "\<exists>p \<in> set [start..<length text]. ?P p"
        using s(1) by auto
      with None show False by (simp add: find_None_iff)
    next
      case (Some j0)
      with \<open>find (header_at h text) [0..<Suc (length text)] = Some i\<close> k
      have "header_at s (strip_py (take (j0 - start) (drop start text))) k"
        by (simp add: spec_field_def start_def Let_def del: upt_Suc)
      then obtain n where "header_at s (take (j0 - start) (drop start text)) (n + k)"
        using header_at_strip by blast
      then have a: "header_at s (drop start text) (n + k)" "n + k + length s \<le> j0 - start"
        using header_at_take by blast+
      then have b: "header_at s text (start + (n + k))"
        using header_at_of_drop s(2) by blast
      from s(2) a(2) have lt: "n + k < j0 - start" by (cases s) auto
      from Some obtain idx where idx: "idx < length [start..<length text]"
        "[start..<length text] ! idx = j0" "\<forall>j<idx. \<not> ?P ([start..<length text] ! j)"
        by (auto simp: find_Some_iff)
      from idx(1,2) have j0: "j0 = start + idx" by simp
      with lt have "n + k < idx" by simp
      with idx(1,3) have "\<not> ?P (start + (n + k))" by auto
      with b s(1) show False by blast
    qed
  qed
qed

lemma spec_field_absent:
  "\<not> header_present h text \<Longrightarrow> spec_field h later text = ''Not found''"
proof -
  assume "\<not> header_present h text"
  then have "find (header_at h text) [0..<Suc (length text)] = None"
    unfolding header_present_def find_None_iff by blast
  then show ?thesis by (simp add: spec_field_def del: upt_Suc)
qed

lemma not_found_no_header:
  "\<not> header_present hdr_drug ''Not found''"
  "\<not> header_present hdr_dosage ''Not found''"
  "\<not> header_present hdr_safety ''Not found''"
  by (simp_all add: header_present_iff header_at_def hdr_drug_def hdr_dosage_def hdr_safety_def)

text \<open>
  Claim C1. For every input text the four headers are searched in the fixed order
  Diagnosis, Proposed New Drug, Hypothetical Dosage/Instructions, Allergy/Safety Note,
  in any letter case and across newlines. Each field is the trimmed text from just
  after the first occurrence of its header up to the start of the next header later in
  this order, or up to the end of the text (always so for the last field). A field whose
  header is absent is the literal \<open>Not found\<close>, whatever the other fields are, and no
  field contains a header that is later in the order.
\<close>

theorem extractFields_spec:
  "extractFields text =
     \<lparr>diagnosis = spec_field hdr_diagnosis [hdr_drug, hdr_dosage, hdr_safety] text,
      drug_concept = spec_field hdr_drug [hdr_dosage, hdr_safety] text,
      dosage = spec_field hdr_dosage [hdr_safety] text,
      safety = spec_field hdr_safety [] text\<rparr>
   \<and> (\<not> header_present hdr_diagnosis text \<longrightarrow> diagnosis (extractFields text) = ''Not found'')
   \<and> (\<not> header_present hdr_drug text \<longrightarrow> drug_concept (extractFields text) = ''Not found'')
   \<and> (\<not> header_present hdr_dosage text \<longrightarrow> dosage (extractFields text) = ''Not found'')
   \<and> (\<not> header_present hdr_safety text \<longrightarrow> safety (extractFields text) = ''Not found'')
   \<and> (\<forall>s \<in> set [hdr_drug, hdr_dosage, hdr_safety].
         \<not> header_present s (diagnosis (extractFields text)))
   \<and> (\<forall>s \<in> set [hdr_dosage, hdr_safety].
         \<not> header_present s (drug_concept (extractFields text)))
   \<and> \<not> header_present hdr_safety (dosage (extractFields text))"
proof -
  have E: "extractFields text =
     \<lparr>diagnosis = spec_field hdr_diagnosis [hdr_drug, hdr_dosage, hdr_safety] text,
      drug_concept = spec_field hdr_drug [hdr_dosage, hdr_safety] text,
      dosage = spec_field hdr_dosage [hdr_safety] text,
      safety = spec_field hdr_safety [] text\<rparr>"
    by (simp add: extractFields_def lazy_field_spec greedy_field_spec)
  have ne: "hdr_drug \<noteq> []" "hdr_dosage \<noteq> []" "hdr_safety \<noteq> []"
    by (simp_all add: hdr_drug_def hdr_dosage_def hdr_safety_def)
  have A: "\<not> header_present h text \<longrightarrow> spec_field h later text = ''Not found''" for h later
    using spec_field_absent by blast
  have L1: "\<forall>s \<in> set [hdr_drug, hdr_dosage, hdr_safety].
      \<not> header_present s (spec_field hdr_diagnosis [hdr_drug, hdr_dosage, hdr_safety] text)"
    using spec_field_no_later ne not_found_no_header by auto
  have L2: "\<forall>s \<in> set [hdr_dosage, hdr_safety].
      \<not> header_present s (spec_field hdr_drug [hdr_dosage, hdr_safety] text)"
    using spec_field_no_later ne not_found_no_header by auto
  have L3: "\<not> header_present hdr_safety (spec_field hdr_dosage [hdr_safety] text)"
    using spec_field_no_later ne not_found_no_header by auto
  show ?thesis
    unfolding E using A L1 L2 L3 by simp
qed

lemma header_present_greedy: "header_present h text \<longleftrightarrow> re_search_greedy h text \<noteq> None"
proof -
  have F: "find (\<lambda>i. match_literal h (drop i text)) [0..<Suc (length text)] =
           find (header_at h text) [0..<Suc (length text)]"
    by (rule find_cong) (auto simp: header_at_drop simp del: upt_Suc)
  have "header_present h text \<longleftrightarrow> find (header_at h text) [0..<Suc (length text)] \<noteq> None"
    unfolding header_present_def find_None_iff by blast
  then show ?thesis
    by (simp add: re_search_greedy_find F del: upt_Suc split: option.splits)
qed

text \<open>
  A report with the first and the last header only, in capitals and in lower case: the
  two fields in between are \<open>Not found\<close>, the diagnosis ends where the safety note
  begins.
\<close>

theorem extractFields_spec_witness:
  "\<not> header_present hdr_drug sample_report
   \<and> \<not> header_present hdr_dosage sample_report
   \<and> extractFields sample_report =
       \<lparr>diagnosis = ''cold'', drug_concept = ''Not found'',
        dosage = ''Not found'', safety = ''none''\<rparr>"
proof -
  have a: "re_search_greedy hdr_drug sample_report = None" by code_simp
  have b: "re_search_greedy hdr_dosage sample_report = None" by code_simp
  have c: "group_or_not_found (re_search_lazy hdr_diagnosis [hdr_drug, hdr_dosage, hdr_safety] sample_report) = ''cold''"
    by code_simp
  have d: "group_or_not_found (re_search_greedy hdr_safety sample_report) = ''none''"
    by code_simp
  have a': "\<not> header_present hdr_drug sample_report" using a by (simp add: header_present_greedy)
  have b': "\<not> header_present hdr_dosage sample_report" using b by (simp add: header_present_greedy)
  from extractFields_spec [of sample_report] a' b'
  have "drug_concept (extractFields sample_report) = ''Not found''"
    "dosage (extractFields sample_report) = ''Not found''"
    by blast+
  moreover have "diagnosis (extractFields sample_report) = ''cold''"
    "safety (extractFields sample_report) = ''none''"
    using c d by (simp_all add: extractFields_def)
  ultimately have "extractFields sample_report =
       \<lparr>diagnosis = ''cold'', drug_concept = ''Not found'',
        dosage = ''Not found'', safety = ''none''\<rparr>"
    by (cases "extractFields sample_report") simp
  with a' b' show ?thesis by simp
qed

section \<open>The translation adapter\<close>

text \<open>
  Claim C4, as stated, fails for a text of whitespace only: with the service available
  line 65 returns the empty string, not the text, also when source and target code are
  the same supported code.
\<close>

theorem gemini_translate_blank_counterexample:
  "fst (gemini_translate (Some failing_client) ''  '' (PyStr ''en'') (PyStr ''en'') 0.1 0) \<noteq> ''  ''"
  by (simp add: gemini_translate_def strip_py_def is_space_def whitespace_def)

text \<open>
  Claim C4, amended. \<^verbatim>\<open>gemini_translate\<close> returns its text unchanged, and sends no
  request, when the service is unavailable, when the text is empty, and when the text is
  not whitespace-only and source and target are the same supported code. With the
  service available a whitespace-only text gives the empty string. So
  \<^verbatim>\<open>translate(text, X, X, _) == text\<close> for every supported code and every text that is
  not whitespace-only, and \<^verbatim>\<open>translate("", A, B, _) == ""\<close> for all codes.
\<close>

theorem gemini_translate_unchanged:
  "gemini_translate None text src tgt temp w = (text, w)
   \<and> gemini_translate gc [] src tgt temp w = ([], w)
   \<and> (strip_py text \<noteq> [] \<and> X \<in> set (map snd LANG_CODES) \<longrightarrow>
        gemini_translate gc text (PyStr X) (PyStr X) temp w = (text, w))
   \<and> (strip_py text = [] \<longrightarrow> gemini_translate (Some client) text src tgt temp w = ([], w))"
proof -
  have auto_code: "''auto'' \<notin> set (map snd LANG_CODES)"
    by (simp add: LANG_CODES_def)
  have blank: "strip_py [] = []" by (simp add: strip_py_def)
  have a: "gemini_translate None text src tgt temp w = (text, w)"
    by (simp add: gemini_translate_def)
  have b: "gemini_translate gc [] src tgt temp w = ([], w)"
    by (cases gc) (simp_all add: gemini_translate_def)
  have c: "gemini_translate gc text (PyStr X) (PyStr X) temp w = (text, w)"
    if "strip_py text \<noteq> []" "X \<in> set (map snd LANG_CODES)"
  proof (cases gc)
    case None
    then show ?thesis by (simp add: gemini_translate_def)
  next
    case (Some client)
    from that(1) blank have "text \<noteq> []" by auto
    moreover from that(2) auto_code have "X \<noteq> ''auto''" by blast
    ultimately show ?thesis
      using that Some by (simp add: gemini_translate_def effective_code_def)
  qed
  have d: "gemini_translate (Some client) text src tgt temp w = ([], w)" if "strip_py text = []"
    using that by (simp add: gemini_translate_def)
  from a b c d show ?thesis by blast
qed

theorem gemini_translate_unchanged_witness:
  "strip_py ''hello'' \<noteq> [] \<and> ''fr'' \<in> set (map snd LANG_CODES)
   \<and> gemini_translate (Some failing_client) ''hello'' (PyStr ''fr'') (PyStr ''fr'') 0.1 0 = (''hello'', 0)
   \<and> strip_py ''  '' = []
   \<and> gemini_translate (Some failing_client) ''  '' (PyStr ''fr'') (PyStr ''fr'') 0.1 0 = ([], 0)"
proof -
  have a: "strip_py ''hello'' \<noteq> []" by (simp add: strip_py_def is_space_def whitespace_def)
  have b: "''fr'' \<in> set (map snd LANG_CODES)" by (simp add: LANG_CODES_def)
  have c: "strip_py ''  '' = []" by (simp add: strip_py_def is_space_def whitespace_def)
  show ?thesis
    using gemini_translate_unchanged [of "''hello''" "PyStr ''fr''" "PyStr ''fr''" "0.1" "0::nat" "Some failing_client" "''fr''" failing_client]
      gemini_translate_unchanged [of "''  ''" "PyStr ''fr''" "PyStr ''fr''" "0.1" "0::nat" "Some failing_client" "''fr''" failing_client]
      a b c by simp
qed

text \<open>
  Claim C5. When the request that \<^verbatim>\<open>gemini_translate\<close> sends raises an exception, the
  result is the original text: the exception does not reach the caller. A
  whitespace-only text sends no request at all.
\<close>

theorem gemini_translate_request_failure:
  "(strip_py text \<noteq> [] \<and>
    client (GenerateContent
              (translation_prompt (effective_code src ''auto'') (effective_code tgt ''en'') text)
              temp) w = (Inl e, w')
    \<longrightarrow> fst (gemini_translate (Some client) text src tgt temp w) = text)
   \<and> (strip_py text = [] \<longrightarrow> gemini_translate (Some client) text src tgt temp w = ([], w))"
  by (auto simp: gemini_translate_def Let_def strip_py_def)

theorem gemini_translate_request_failure_witness:
  "strip_py ''hello'' \<noteq> []
   \<and> failing_client (GenerateContent
        (translation_prompt (effective_code (PyStr ''en'') ''auto'') (effective_code (PyStr ''fr'') ''en'') ''hello'') 0.1) 0
       = (Inl (Exception ''boom''), 1)
   \<and> fst (gemini_translate (Some failing_client) ''hello'' (PyStr ''en'') (PyStr ''fr'') 0.1 0) = ''hello''
   \<and> strip_py ''  '' = []
   \<and> gemini_translate (Some failing_client) ''  '' (PyStr ''en'') (PyStr ''fr'') 0.1 0 = ([], 0)"
proof -
  have c: "strip_py ''  '' = []" by (simp add: strip_py_def is_space_def whitespace_def)
  note B = gemini_translate_request_failure [of "''  ''" failing_client "PyStr ''en''" "PyStr ''fr''"
      "0.1" "0::nat" "Exception ''boom''" "1::nat"]
  have a: "strip_py ''hello'' \<noteq> []" by (simp add: strip_py_def is_space_def whitespace_def)
  have b: "failing_client (GenerateContent
        (translation_prompt (effective_code (PyStr ''en'') ''auto'') (effective_code (PyStr ''fr'') ''en'') ''hello'') 0.1) 0
       = (Inl (Exception ''boom''), 1)" by (simp add: failing_client_def)
  show ?thesis
    using gemini_translate_request_failure [of "''hello''" failing_client "PyStr ''en''" "PyStr ''fr''" "0.1" "0::nat" "Exception ''boom''" "1::nat"] a b B c
    by simp
qed

section \<open>The export renderer\<close>

lemma join_py_Cons: "xs \<noteq> [] \<Longrightarrow> join_py sep (x # xs) = x @ sep @ join_py sep xs"
  by (cases xs) simp_all

lemma split_scan_not_Nil: "split_scan sep chunk s \<noteq> []"
  by (induction sep chunk s rule: split_scan.induct) auto

lemma take_eq_drop_pred:
  assumes "sep \<noteq> []" "take (length sep) (c # cs) = sep"
  shows "c # cs = sep @ drop (length sep - 1) cs"
proof -
  from assms(1) obtain n where n: "length sep = Suc n" by (cases sep) auto
  have "c # cs = take (length sep) (c # cs) @ drop (length sep) (c # cs)" by simp
  with assms(2) n show ?thesis by simp
qed

lemma join_split_scan:
  "sep \<noteq> [] \<Longrightarrow> join_py sep (split_scan sep chunk s) = chunk @ s"
proof (induction sep chunk s rule: split_scan.induct)
  case (1 sep chunk)
  show ?case by simp
next
  case (2 sep chunk c cs)
  show ?case
  proof (cases "take (length sep) (c # cs) = sep")
    case True
    with 2 have IH: "join_py sep (split_scan sep [] (drop (length sep - 1) cs)) = drop (length sep - 1) cs"
      by simp
    have "split_scan sep chunk (c # cs) = chunk # split_scan sep [] (drop (length sep - 1) cs)"
      using True 2(3) by simp
    then have "join_py sep (split_scan sep chunk (c # cs)) =
               chunk @ sep @ join_py sep (split_scan sep [] (drop (length sep - 1) cs))"
      by (simp only: join_py_Cons [OF split_scan_not_Nil])
    also have "\<dots> = chunk @ sep @ drop (length sep - 1) cs"
      by (simp only: IH)
    also have "\<dots> = chunk @ (c # cs)"
      by (simp only: take_eq_drop_pred [OF 2(3) True, symmetric])
    finally show ?thesis .
  next
    case False
    with 2 show ?thesis by simp
  qed
qed

lemma split_scan_no_marker:
  "CHR ''#'' \<notin> set s \<Longrightarrow> split_scan ''###'' chunk s = [chunk @ s]"
  by (induction s arbitrary: chunk) auto

lemma split_scan_marker:
  "CHR ''#'' \<notin> set s \<Longrightarrow>
   split_scan ''###'' chunk (s @ ''###'' @ rest) = (chunk @ s) # split_scan ''###'' [] rest"
  by (induction s arbitrary: chunk) auto

lemma split_once_colon:
  "CHR '':'' \<in> set chunk \<Longrightarrow>
   split_once CHR '':'' chunk =
     [takeWhile (\<lambda>c. c \<noteq> CHR '':'') chunk, tl (dropWhile (\<lambda>c. c \<noteq> CHR '':'') chunk)]"
  by (auto simp: split_once_def split: list.splits)

lemma split_once_no_colon:
  "CHR '':'' \<notin> set chunk \<Longrightarrow> split_once CHR '':'' chunk = [chunk]"
proof -
  assume "CHR '':'' \<notin> set chunk"
  then have d: "dropWhile (\<lambda>c. c \<noteq> CHR '':'') chunk = []" by auto
  show ?thesis unfolding split_once_def d by simp
qed

lemma add_sections_nonblank:
  "add_sections chunks = sections_of_nonblank_chunks chunks"
proof (induction chunks)
  case Nil
  show ?case by (simp add: sections_of_nonblank_chunks_def)
next
  case (Cons chunk chunks)
  show ?case
  proof (cases "CHR '':'' \<in> set chunk")
    case True
    with Cons show ?thesis
      by (simp add: sections_of_nonblank_chunks_def section_of_chunk_def split_once_colon
          titled_section_def sanitize_text_def)
  next
    case False
    with Cons show ?thesis
      by (simp add: sections_of_nonblank_chunks_def section_of_chunk_def split_once_no_colon
          body_section_def sanitize_text_def)
  qed
qed

lemma strip_py_not_blank:
  assumes "x \<in> set s" "\<not> is_space x"
  shows "strip_py s \<noteq> []"
proof -
  have "x \<notin> set (takeWhile is_space s)"
    using assms(2) by (auto dest: set_takeWhileD)
  moreover have "set s = set (takeWhile is_space s) \<union> set (dropWhile is_space s)"
    by (metis set_append takeWhile_dropWhile_id)
  ultimately have "x \<in> set (dropWhile is_space s)" using assms(1) by blast
  then have "x \<in> set (rev (dropWhile is_space s))" by simp
  then have "\<not> (\<forall>y \<in> set (rev (dropWhile is_space s)). is_space y)"
    using assms(2) by blast
  then have "dropWhile is_space (rev (dropWhile is_space s)) \<noteq> []"
    unfolding dropWhile_eq_Nil_conv .
  then show ?thesis by (simp add: strip_py_def)
qed

lemma colon_not_space: "\<not> is_space CHR '':''"
  by (simp add: is_space_def whitespace_def)

lemma section_of_titled_chunk:
  "CHR '':'' \<notin> set t \<Longrightarrow> section_of_chunk (t @ '':'' @ b) = titled_section t b"
  by (simp add: section_of_chunk_def takeWhile_append dropWhile_append)

lemma titled_chunk_not_blank: "strip_py (t @ '':'' @ b) \<noteq> []"
  by (rule strip_py_not_blank [OF _ colon_not_space]) simp

lemma split_two_chunks:
  assumes "CHR ''#'' \<notin> set c1" "CHR ''#'' \<notin> set c2"
  shows "split_py ''###'' (''###'' @ c1 @ ''###'' @ c2) = [[], c1, c2]"
proof -
  have "split_scan ''###'' [] ([] @ ''###'' @ (c1 @ ''###'' @ c2)) =
        ([] @ []) # split_scan ''###'' [] (c1 @ ''###'' @ c2)"
    by (rule split_scan_marker) simp
  moreover have "split_scan ''###'' [] (c1 @ ''###'' @ c2) = ([] @ c1) # split_scan ''###'' [] c2"
    by (rule split_scan_marker [OF assms(1)])
  moreover have "split_scan ''###'' [] c2 = [[] @ c2]"
    by (rule split_scan_no_marker [OF assms(2)])
  ultimately show ?thesis by (simp add: split_py_def)
qed

text \<open>
  Claim C8, as stated, fails for a chunk of whitespace only: it is not empty and has no
  colon, so that the claim has it emitted as a body, while line 183 skips it.
\<close>

theorem export_blank_chunk_counterexample:
  "split_py ''###'' ''x### '' = [''x'', '' '']
   \<and> add_sections (split_py ''###'' ''x### '') = body_section ''x''
   \<and> sections_of_nonempty_chunks (split_py ''###'' ''x### '') = body_section ''x'' @ body_section '' ''
   \<and> add_sections (split_py ''###'' ''x### '') \<noteq> sections_of_nonempty_chunks (split_py ''###'' ''x### '')"
proof -
  have s: "split_py ''###'' ''x### '' = [''x'', '' '']"
    by (simp add: split_py_def)
  have a: "add_sections [''x'', '' ''] = body_section ''x''"
    by (simp add: strip_py_def is_space_def whitespace_def split_once_def body_section_def
        sanitize_text_def)
  have b: "sections_of_nonempty_chunks [''x'', '' ''] = body_section ''x'' @ body_section '' ''"
    by (simp add: sections_of_nonempty_chunks_def section_of_chunk_def)
  show ?thesis unfolding s a b by (simp add: body_section_def)
qed

text \<open>
  Claim C8, amended. \<^verbatim>\<open>generate_pdf_report\<close> returns \<open>None\<close> when the session holds no
  translated summary. Otherwise the document that it writes has, between its fixed
  opening and its disclaimer, the sections of the chunks into which the marker \<open>###\<close>
  splits the summary: every chunk that is not empty and not whitespace-only gives a
  titled section, split once at its first colon, when it has a colon, and a body of
  the whole chunk otherwise. A summary of two chunks with headings gives two titled
  sections.
\<close>

theorem generate_pdf_report_sections:
  "(\<not> truthy (dict_get (translated_summary s) (PyStr [])) \<longrightarrow>
      generate_pdf_report output s = None)
   \<and> (truthy (dict_get (translated_summary s) (PyStr [])) \<longrightarrow>
      generate_pdf_report output s =
        (case output ''./pharma_gpt_report.pdf''
                (pdf_document (py_str (dict_get (language s) (PyStr ''English'')))
                   (py_str (dict_get (translated_summary s) (PyStr [])))) of
           None \<Rightarrow> Some ''./pharma_gpt_report.pdf''
         | Some e \<Rightarrow> None))
   \<and> join_py ''###'' (split_py ''###'' summary) = summary
   \<and> pdf_document user_language summary =
       pdf_preamble user_language
       @ sections_of_nonblank_chunks (split_py ''###'' summary)
       @ pdf_disclaimer
   \<and> (CHR ''#'' \<notin> set (t1 @ b1 @ t2 @ b2) \<and> CHR '':'' \<notin> set (t1 @ t2) \<longrightarrow>
       pdf_document user_language (''###'' @ t1 @ '':'' @ b1 @ ''###'' @ t2 @ '':'' @ b2) =
         pdf_preamble user_language @ titled_section t1 b1 @ titled_section t2 b2
         @ pdf_disclaimer)"
proof -
  have a: "\<not> truthy (dict_get (translated_summary s) (PyStr [])) \<longrightarrow>
      generate_pdf_report output s = None"
    by (simp add: generate_pdf_report_def Let_def)
  have b: "truthy (dict_get (translated_summary s) (PyStr [])) \<longrightarrow>
      generate_pdf_report output s =
        (case output ''./pharma_gpt_report.pdf''
                (pdf_document (py_str (dict_get (language s) (PyStr ''English'')))
                   (py_str (dict_get (translated_summary s) (PyStr [])))) of
           None \<Rightarrow> Some ''./pharma_gpt_report.pdf''
         | Some e \<Rightarrow> None)"
    by (simp add: generate_pdf_report_def Let_def)
  have c: "join_py ''###'' (split_py ''###'' summary) = summary"
    using join_split_scan [of "''###''" "[]" summary] by (simp add: split_py_def)
  have d: "pdf_document user_language summary =
       pdf_preamble user_language
       @ sections_of_nonblank_chunks (split_py ''###'' summary)
       @ pdf_disclaimer" for summary
    by (simp add: pdf_document_def add_sections_nonblank)
  have e: "pdf_document user_language (''###'' @ t1 @ '':'' @ b1 @ ''###'' @ t2 @ '':'' @ b2) =
         pdf_preamble user_language @ titled_section t1 b1 @ titled_section t2 b2
         @ pdf_disclaimer"
    if h: "CHR ''#'' \<notin> set (t1 @ b1 @ t2 @ b2)" and k: "CHR '':'' \<notin> set (t1 @ t2)"
  proof -
    have "split_py ''###'' (''###'' @ (t1 @ '':'' @ b1) @ ''###'' @ (t2 @ '':'' @ b2)) =
          [[], t1 @ '':'' @ b1, t2 @ '':'' @ b2]"
      by (rule split_two_chunks) (use h in auto)
    then have "split_py ''###'' (''###'' @ t1 @ '':'' @ b1 @ ''###'' @ t2 @ '':'' @ b2) =
          [[], t1 @ '':'' @ b1, t2 @ '':'' @ b2]"
      by simp
    moreover have "sections_of_nonblank_chunks [[], t1 @ '':'' @ b1, t2 @ '':'' @ b2] =
          titled_section t1 b1 @ titled_section t2 b2"
      using k titled_chunk_not_blank [of t1 b1] titled_chunk_not_blank [of t2 b2]
        section_of_titled_chunk [of t1 b1] section_of_titled_chunk [of t2 b2]
      by (simp add: sections_of_nonblank_chunks_def strip_py_def)
    ultimately show ?thesis by (simp add: d)
  qed
  from a b c d e show ?thesis by blast
qed

theorem generate_pdf_report_sections_witness:
  "\<not> truthy (dict_get (translated_summary initialize_chat_state) (PyStr []))
   \<and> generate_pdf_report output_ok initialize_chat_state = None
   \<and> truthy (dict_get (translated_summary sample_export_state) (PyStr []))
   \<and> generate_pdf_report output_ok sample_export_state = Some ''./pharma_gpt_report.pdf''
   \<and> CHR ''#'' \<notin> set ('' A'' @ '' x'' @ '' B'' @ '' y'') \<and> CHR '':'' \<notin> set ('' A'' @ '' B'')
   \<and> pdf_document ''English'' ''### A: x### B: y'' =
       pdf_preamble ''English''
       @ [SetFont ''Arial'' ''B'' 12, Cell 0 10 ''A:'' 0 1 ''L'', SetFont ''Arial'' [] 10,
          MultiCell 0 5 ''x'', Ln 5,
          SetFont ''Arial'' ''B'' 12, Cell 0 10 ''B:'' 0 1 ''L'', SetFont ''Arial'' [] 10,
          MultiCell 0 5 ''y'', Ln 5]
       @ pdf_disclaimer"
proof -
  have a: "\<not> truthy (dict_get (translated_summary initialize_chat_state) (PyStr []))"
    by (simp add: initialize_chat_state_def dict_get_def)
  have b: "truthy (dict_get (translated_summary sample_export_state) (PyStr []))"
    by (simp add: sample_export_state_def dict_get_def)
  have c: "CHR ''#'' \<notin> set ('' A'' @ '' x'' @ '' B'' @ '' y'') \<and> CHR '':'' \<notin> set ('' A'' @ '' B'')"
    by simp
  have t: "titled_section '' A'' '' x'' =
       [SetFont ''Arial'' ''B'' 12, Cell 0 10 ''A:'' 0 1 ''L'', SetFont ''Arial'' [] 10,
          MultiCell 0 5 ''x'', Ln 5]"
     "titled_section '' B'' '' y'' =
       [SetFont ''Arial'' ''B'' 12, Cell 0 10 ''B:'' 0 1 ''L'', SetFont ''Arial'' [] 10,
          MultiCell 0 5 ''y'', Ln 5]"
    by (simp_all add: titled_section_def strip_py_def is_space_def whitespace_def)
  note T1 = generate_pdf_report_sections [of initialize_chat_state output_ok "[]" "[]" "[]" "[]" "[]" "[]"]
  note T2 = generate_pdf_report_sections [of sample_export_state output_ok "[]" "''English''"
      "'' A''" "'' x''" "'' B''" "'' y''"]
  from T1 a have r1: "generate_pdf_report output_ok initialize_chat_state = None" by blast
  from T2 b have r2: "generate_pdf_report output_ok sample_export_state = Some ''./pharma_gpt_report.pdf''"
    by (simp add: output_ok_def)
  from T2 c have r3: "pdf_document ''English'' (''###'' @ '' A'' @ '':'' @ '' x'' @ ''###'' @ '' B'' @ '':'' @ '' y'') =
         pdf_preamble ''English'' @ titled_section '' A'' '' x'' @ titled_section '' B'' '' y''
         @ pdf_disclaimer" by blast
  from r3 have r4: "pdf_document ''English'' ''### A: x### B: y'' =
       pdf_preamble ''English''
       @ [SetFont ''Arial'' ''B'' 12, Cell 0 10 ''A:'' 0 1 ''L'', SetFont ''Arial'' [] 10,
          MultiCell 0 5 ''x'', Ln 5,
          SetFont ''Arial'' ''B'' 12, Cell 0 10 ''B:'' 0 1 ''L'', SetFont ''Arial'' [] 10,
          MultiCell 0 5 ''y'', Ln 5]
       @ pdf_disclaimer"
    unfolding t by simp
  from a b c r1 r2 r4 show ?thesis by blast
qed

section \<open>Letter case and the language names\<close>

lemma case_pairs:
  "\<forall>(c, d) \<in> set (zip ascii_upper ascii_lower).
     lower_char c = d \<and> lower_char d = d \<and> upper_char d = c \<and> upper_char c = c
     \<and> is_cased c \<and> is_cased d \<and> \<not> is_space c \<and> \<not> is_space d"
  by code_simp

lemma lower_char_cases:
  "(c \<notin> set ascii_upper \<and> lower_char c = c) \<or> (c, lower_char c) \<in> set (zip ascii_upper ascii_lower)"
proof (cases "map_of (zip ascii_upper ascii_lower) c")
  case None
  then have "c \<notin> fst ` set (zip ascii_upper ascii_lower)" by (simp add: map_of_eq_None_iff)
  moreover have "map fst (zip ascii_upper ascii_lower) = ascii_upper"
    by (rule map_fst_zip) (simp add: ascii_upper_def ascii_lower_def)
  ultimately have "c \<notin> set ascii_upper" by (metis set_map)
  with None show ?thesis by (simp add: lower_char_def)
next
  case (Some d)
  then have "(c, d) \<in> set (zip ascii_upper ascii_lower)" by (rule map_of_SomeD)
  with Some show ?thesis by (simp add: lower_char_def)
qed

lemma upper_char_cases:
  "(c \<notin> set ascii_lower \<and> upper_char c = c) \<or> (upper_char c, c) \<in> set (zip ascii_upper ascii_lower)"
proof (cases "map_of (zip ascii_lower ascii_upper) c")
  case None
  then have "c \<notin> fst ` set (zip ascii_lower ascii_upper)" by (simp add: map_of_eq_None_iff)
  moreover have "map fst (zip ascii_lower ascii_upper) = ascii_lower"
    by (rule map_fst_zip) (simp add: ascii_upper_def ascii_lower_def)
  ultimately have "c \<notin> set ascii_lower" by (metis set_map)
  with None show ?thesis by (simp add: upper_char_def)
next
  case (Some d)
  then have "(c, d) \<in> set (zip ascii_lower ascii_upper)" by (rule map_of_SomeD)
  then have "(d, c) \<in> set (zip ascii_upper ascii_lower)"
    by (simp add: in_set_zip) blast
  with Some show ?thesis by (simp add: upper_char_def)
qed

lemma lower_lower: "lower_char (lower_char c) = lower_char c"
  using lower_char_cases [of c] case_pairs by fastforce

lemma upper_lower: "upper_char (lower_char c) = upper_char c"
  using lower_char_cases [of c] case_pairs by fastforce

lemma cased_lower: "is_cased (lower_char c) = is_cased c"
  using lower_char_cases [of c] case_pairs by fastforce

lemma space_lower: "is_space (lower_char c) = is_space c"
  using lower_char_cases [of c] case_pairs by fastforce

lemma lower_upper: "lower_char (upper_char c) = lower_char c"
  using upper_char_cases [of c] case_pairs by fastforce

lemma title_from_lower: "title_from b (map lower_char s) = title_from b s"
  by (induction s arbitrary: b) (simp_all add: lower_lower upper_lower cased_lower)

lemma lower_title_from: "map lower_char (title_from b s) = map lower_char s"
  by (induction s arbitrary: b) (simp_all add: lower_lower lower_upper)

lemma strip_py_lower: "strip_py (map lower_char s) = map lower_char (strip_py s)"
proof -
  have c: "is_space \<circ> lower_char = is_space" by (rule ext) (simp add: space_lower)
  have d: "dropWhile is_space (map lower_char xs) = map lower_char (dropWhile is_space xs)" for xs
    by (simp add: dropWhile_map c)
  show ?thesis
    by (simp add: strip_py_def d rev_map)
qed

lemma language_names_titled:
  "\<forall>name \<in> set (map fst LANG_CODES). title_py name = name \<and> strip_py name = name"
  by code_simp

lemma supported_language_title:
  assumes "supported_language name (strip_py message)"
  shows "title_py (strip_py message) = name"
proof -
  from assms have n: "name \<in> set (map fst LANG_CODES)"
    and l: "map lower_char (strip_py message) = map lower_char name"
    by (simp_all add: supported_language_def lower_py_def)
  have "title_py (strip_py message) = title_from False (map lower_char (strip_py message))"
    by (simp add: title_py_def title_from_lower)
  also have "\<dots> = title_py name" by (simp add: l title_py_def title_from_lower)
  also have "\<dots> = name" using n language_names_titled by blast
  finally show ?thesis .
qed

lemma title_supported_language:
  assumes "title_py (strip_py message) \<in> set (map fst LANG_CODES)"
  shows "supported_language (title_py (strip_py message)) (strip_py message)"
  using assms
  by (simp add: supported_language_def lower_py_def title_py_def lower_title_from)

lemma supported_input_iff:
  "supported_input (strip_py message) \<longleftrightarrow>
     title_py (strip_py message) \<in> set (map fst LANG_CODES)"
proof
  assume "supported_input (strip_py message)"
  then obtain name where "name \<in> set (map fst LANG_CODES)"
    "supported_language name (strip_py message)"
    by (auto simp: supported_input_def)
  then show "title_py (strip_py message) \<in> set (map fst LANG_CODES)"
    using supported_language_title by blast
next
  assume "title_py (strip_py message) \<in> set (map fst LANG_CODES)"
  then show "supported_input (strip_py message)"
    using title_supported_language unfolding supported_input_def by blast
qed

lemma available_languages:
  "join_py '', '' (sort (map fst LANG_CODES)) =
     ''Arabic, Bengali, Chinese, English, French, German, Hindi, Italian, Japanese, Kannada, Korean, Portuguese, Russian, Spanish, Tamil, Telugu, Thai, Turkish, Ukrainian, Vietnamese''"
  by code_simp

section \<open>The dialogue sequencer\<close>

lemma ask_language_accept:
  assumes "map_of LANG_CODES (title_py (strip_py message)) = Some code"
    and "gemini_chat_history_manual state = Some h"
  shows "\<exists>reply w'. ask_language gc message state es ts w =
           (Inr (reply, es, ts,
              state\<lparr>language := Some (PyStr (title_py (strip_py message))),
                    lang_code := Some (PyStr code),
                    stage := Some (PyStr CHAT_STAGE_ASK_SYMPTOMS),
                    gemini_chat_history_manual :=
                      Some (h @ [Turn ''user'' (''User selected language: '' @ title_py (strip_py message)),
                                 Turn ''model'' (''Thank you. Your selected language is ''
                                   @ title_py (strip_py message) @ ''.'' @ nl @ nl
                                   @ ''Please describe your symptoms.'')])\<rparr>), w')"
  using assms by (simp add: ask_language_def Let_def split: prod.splits)

lemma ask_language_reject:
  assumes "map_of LANG_CODES (title_py (strip_py message)) = None"
  shows "ask_language gc message state es ts w =
           (Inr (''Sorry, '' @ apos @ message @ apos
                    @ '' is not a supported language. Please select from: ''
                    @ join_py '', '' (sort (map fst LANG_CODES)), es, ts, state), w)"
  using assms by (simp add: ask_language_def Let_def)

lemma ask_language_state:
  assumes "ask_language gc message state es ts w = (Inr (reply, es', ts', s'), w')"
  shows "s' = state \<or>
         (stage s' = Some (PyStr CHAT_STAGE_ASK_SYMPTOMS)
          \<and> language s' = Some (PyStr (title_py (strip_py message)))
          \<and> (\<exists>code. map_of LANG_CODES (title_py (strip_py message)) = Some code
                \<and> lang_code s' = Some (PyStr code)))"
  using assms
  by (auto simp: ask_language_def Let_def split: option.splits prod.splits)

lemma ask_symptoms_state:
  assumes "ask_symptoms gc message ume ulc state es ts w = (Inr (reply, es', ts', s'), w')"
  shows "s' = initialize_chat_state \<or> s' = state \<or>
         (stage s' = Some (PyStr CHAT_STAGE_ASK_ALLERGIES)
          \<and> lang_code s' = lang_code state \<and> language s' = language state)"
  using assms
  by (auto simp: ask_symptoms_def Let_def split: option.splits prod.splits if_splits)

lemma ask_allergies_state:
  assumes "ask_allergies gc message ume ulc state es ts w = (Inr (reply, es', ts', s'), w')"
  shows "s' = initialize_chat_state \<or>
         (stage s' = Some (PyStr CHAT_STAGE_GENERAL_QNA)
          \<and> lang_code s' = lang_code state \<and> language s' = language state)"
  using assms
  by (auto simp: ask_allergies_def Let_def split: option.splits prod.splits if_splits sum.splits)

lemma general_qna_state:
  assumes "general_qna gc ume ulc state es ts w = (Inr (reply, es', ts', s'), w')"
  shows "\<exists>h r. gemini_chat_history_manual state = Some h \<and>
           s' = state\<lparr>gemini_chat_history_manual := Some (h @ [Turn ''user'' ume, Turn ''model'' r])\<rparr>"
  using assms
  by (auto simp: general_qna_def Let_def split: option.splits prod.splits)

lemma stage_names_distinct:
  "CHAT_STAGE_ASK_LANGUAGE \<noteq> CHAT_STAGE_ASK_SYMPTOMS"
  "CHAT_STAGE_ASK_LANGUAGE \<noteq> CHAT_STAGE_ASK_ALLERGIES"
  "CHAT_STAGE_ASK_LANGUAGE \<noteq> CHAT_STAGE_GENERATE_RESPONSE"
  "CHAT_STAGE_ASK_LANGUAGE \<noteq> CHAT_STAGE_GENERAL_QNA"
  "CHAT_STAGE_ASK_SYMPTOMS \<noteq> CHAT_STAGE_ASK_ALLERGIES"
  "CHAT_STAGE_ASK_SYMPTOMS \<noteq> CHAT_STAGE_GENERATE_RESPONSE"
  "CHAT_STAGE_ASK_SYMPTOMS \<noteq> CHAT_STAGE_GENERAL_QNA"
  "CHAT_STAGE_ASK_ALLERGIES \<noteq> CHAT_STAGE_GENERATE_RESPONSE"
  "CHAT_STAGE_ASK_ALLERGIES \<noteq> CHAT_STAGE_GENERAL_QNA"
  "CHAT_STAGE_GENERATE_RESPONSE \<noteq> CHAT_STAGE_GENERAL_QNA"
  by (simp_all add: CHAT_STAGE_ASK_LANGUAGE_def CHAT_STAGE_ASK_SYMPTOMS_def
      CHAT_STAGE_ASK_ALLERGIES_def CHAT_STAGE_GENERATE_RESPONSE_def CHAT_STAGE_GENERAL_QNA_def)

lemma process_chat_try_effect:
  assumes "process_chat_try gc message state w = (Inr (reply, es, ts, s'), w')"
  shows "turn_effect message state s'"
proof (cases "stage state")
  case None
  with assms show ?thesis by (simp add: process_chat_try_def)
next
  case (Some current_stage)
  define ulc where "ulc = dict_get (lang_code state) (PyStr ''en'')"
  obtain ume w1 where t: "(if ulc \<noteq> PyStr ''en'' \<and> ulc \<noteq> PyNone \<and> strip_py message \<noteq> []
                  then gemini_translate gc message ulc (PyStr ''en'') 0.1 w
                  else (message, w)) = (ume, w1)"
    by (cases "(if ulc \<noteq> PyStr ''en'' \<and> ulc \<noteq> PyNone \<and> strip_py message \<noteq> []
                  then gemini_translate gc message ulc (PyStr ''en'') 0.1 w
                  else (message, w))") auto
  obtain es0 ts0 w2 where p: "previous_summary gc state ulc w1 = ((es0, ts0), w2)"
    by (cases "previous_summary gc state ulc w1") auto
  note body = assms [unfolded process_chat_try_def Some option.case Let_def
      ulc_def [symmetric] t p prod.case]
  consider (lang) "current_stage = PyStr CHAT_STAGE_ASK_LANGUAGE"
    | (symp) "current_stage = PyStr CHAT_STAGE_ASK_SYMPTOMS"
    | (allerg) "current_stage = PyStr CHAT_STAGE_ASK_ALLERGIES"
    | (qna) "current_stage = PyStr CHAT_STAGE_GENERAL_QNA"
    | (other) "current_stage \<noteq> PyStr CHAT_STAGE_ASK_LANGUAGE"
        "current_stage \<noteq> PyStr CHAT_STAGE_ASK_SYMPTOMS"
        "current_stage \<noteq> PyStr CHAT_STAGE_ASK_ALLERGIES"
        "current_stage \<noteq> PyStr CHAT_STAGE_GENERAL_QNA"
    by blast
  then show ?thesis
  proof cases
    case lang
    with body have "ask_language gc message state es0 ts0 w2 = (Inr (reply, es, ts, s'), w')"
      by simp
    from ask_language_state [OF this] lang Some show ?thesis
      by (auto simp: turn_effect_def)
  next
    case symp
    with body have "ask_symptoms gc message ume ulc state es0 ts0 w2 = (Inr (reply, es, ts, s'), w')"
      by (simp add: stage_names_distinct stage_names_distinct [symmetric])
    from ask_symptoms_state [OF this] symp Some show ?thesis
      by (auto simp: turn_effect_def)
  next
    case allerg
    with body have "ask_allergies gc message ume ulc state es0 ts0 w2 = (Inr (reply, es, ts, s'), w')"
      by (simp add: stage_names_distinct stage_names_distinct [symmetric])
    from ask_allergies_state [OF this] allerg Some show ?thesis
      by (auto simp: turn_effect_def)
  next
    case qna
    with body have "general_qna gc ume ulc state es0 ts0 w2 = (Inr (reply, es, ts, s'), w')"
      by (simp add: stage_names_distinct stage_names_distinct [symmetric])
    from general_qna_state [OF this] qna Some show ?thesis
      by (auto simp: turn_effect_def)
  next
    case other
    with body have "s' = state" by simp
    then show ?thesis by (simp add: turn_effect_def)
  qed
qed

lemma process_chat_effect:
  assumes "process_chat gc message history state w = ((h', es, ts, s'), w')"
  shows "turn_effect message state s'"
proof (cases "process_chat_try gc message state w")
  case (Pair r w1)
  show ?thesis
  proof (cases r)
    case (Inl e)
    with Pair assms have "s' = initialize_chat_state"
      by (simp add: process_chat_def Let_def)
    then show ?thesis by (simp add: turn_effect_def)
  next
    case (Inr out)
    obtain reply es1 ts1 s1 where out: "out = (reply, es1, ts1, s1)" by (cases out) auto
    with Pair Inr assms have "s' = s1" by (simp add: process_chat_def Let_def)
    moreover from Pair Inr out
    have "process_chat_try gc message state w = (Inr (reply, es1, ts1, s1), w1)" by simp
    then have "turn_effect message state s1" by (rule process_chat_try_effect)
    ultimately show ?thesis by simp
  qed
qed

lemma stage_rank_simps:
  "stage s = Some (PyStr CHAT_STAGE_ASK_LANGUAGE) \<Longrightarrow> stage_rank s = Some 0"
  "stage s = Some (PyStr CHAT_STAGE_ASK_SYMPTOMS) \<Longrightarrow> stage_rank s = Some 1"
  "stage s = Some (PyStr CHAT_STAGE_ASK_ALLERGIES) \<Longrightarrow> stage_rank s = Some 2"
  "stage s = Some (PyStr CHAT_STAGE_GENERAL_QNA) \<Longrightarrow> stage_rank s = Some 4"
  by (simp_all add: stage_rank_def stage_names_distinct stage_names_distinct [symmetric])

lemma turn_effect_step:
  assumes "turn_effect message s s'"
  shows "s' = initialize_chat_state \<or> stage_step s s'"
  using assms by (auto simp: turn_effect_def stage_step_def turn_transitions_def)

lemma stage_step_forward:
  assumes "stage_step s s'"
  shows "stage_forward s s'"
  using assms
  by (auto simp: stage_step_def stage_forward_def turn_transitions_def stage_rank_simps)

lemma handle_event_step:
  assumes "handle_event gc ev (u, w) = (u', w')"
  shows "snd (snd (snd u')) = initialize_chat_state \<or> stage_step (snd (snd (snd u))) (snd (snd (snd u')))"
proof (cases ev)
  case (Send message)
  obtain chatbot es ts state where u: "u = (chatbot, es, ts, state)" by (cases u) auto
  obtain h' es' ts' s' where u': "u' = (h', es', ts', s')" by (cases u') auto
  from assms Send u u' have "process_chat gc message (Some chatbot) state w = ((h', es', ts', s'), w')"
    by simp
  then have "turn_effect message state s'" by (rule process_chat_effect)
  then show ?thesis using u u' turn_effect_step by auto
next
  case DownloadReport
  with assms show ?thesis by (auto simp: stage_step_def)
next
  case NewConsultation
  with assms show ?thesis by auto
qed

lemma session_trace_hd:
  "session_trace gc evs u ! 0 = snd (snd (snd (fst u)))"
  by (cases evs) simp_all

lemma session_trace_length: "length (session_trace gc evs u) = Suc (length evs)"
  by (induction evs arbitrary: u) simp_all

lemma session_trace_steps:
  assumes "Suc k < length (session_trace gc evs u)"
  shows "session_trace gc evs u ! Suc k = initialize_chat_state
         \<or> stage_step (session_trace gc evs u ! k) (session_trace gc evs u ! Suc k)"
  using assms
proof (induction evs arbitrary: u k)
  case Nil
  then show ?case by simp
next
  case (Cons ev evs)
  obtain u0 w where u: "u = (u0, w)" by (cases u) auto
  obtain u1 w1 where h: "handle_event gc ev (u0, w) = (u1, w1)"
    by (cases "handle_event gc ev (u0, w)") auto
  show ?case
  proof (cases k)
    case 0
    have "session_trace gc (ev # evs) u ! Suc 0 = snd (snd (snd u1))"
      using u h by (simp add: session_trace_hd)
    moreover have "session_trace gc (ev # evs) u ! 0 = snd (snd (snd u0))"
      using u by simp
    ultimately show ?thesis using handle_event_step [OF h] 0 by simp
  next
    case (Suc j)
    with Cons.prems have "Suc j < length (session_trace gc evs (handle_event gc ev u))"
      by simp
    from Cons.IH [OF this] Suc show ?thesis by simp
  qed
qed

lemma initialize_chat_state_fields:
  "initialize_chat_state =
     \<lparr>stage = Some (PyStr ''ask_language''), language = Some PyNone, lang_code = Some PyNone,
      symptoms_user_lang = Some PyNone, symptoms_en = Some PyNone,
      allergies_user_lang = Some PyNone, allergies_en = Some PyNone,
      diagnosis_en = Some PyNone, drug_concept_full_en = Some PyNone,
      gemini_chat_history_manual = Some [], translated_summary = None\<rparr>"
  by (simp add: initialize_chat_state_def CHAT_STAGE_ASK_LANGUAGE_def)

lemma process_chat_exception:
  assumes "process_chat_try gc message state w = (Inl e, w')"
  shows "process_chat gc message history state w =
           (((case history of None \<Rightarrow> [] | Some h \<Rightarrow> h) @ [(message, error_message e)],
             ''Error: '' @ error_message e, ''Error: '' @ error_message e,
             initialize_chat_state), w')"
  using assms by (simp add: process_chat_def Let_def set_last_reply_def)

section \<open>Single turns\<close>

text \<open>Which stage function a turn runs, with the summaries and the world it starts from.\<close>

lemma process_chat_try_dispatch:
  assumes "stage state = Some current_stage"
  shows "\<exists>user_message_en es0 ts0 w2.
     process_chat_try gc message state w =
       (if current_stage = PyStr CHAT_STAGE_ASK_LANGUAGE then
          ask_language gc message state es0 ts0 w2
        else if current_stage = PyStr CHAT_STAGE_ASK_SYMPTOMS then
          ask_symptoms gc message user_message_en (dict_get (lang_code state) (PyStr ''en''))
            state es0 ts0 w2
        else if current_stage = PyStr CHAT_STAGE_ASK_ALLERGIES then
          ask_allergies gc message user_message_en (dict_get (lang_code state) (PyStr ''en''))
            state es0 ts0 w2
        else if current_stage = PyStr CHAT_STAGE_GENERAL_QNA then
          general_qna gc user_message_en (dict_get (lang_code state) (PyStr ''en''))
            state es0 ts0 w2
        else (Inr ([], es0, ts0, state), w2))"
proof -
  define ulc where "ulc = dict_get (lang_code state) (PyStr ''en'')"
  obtain ume w1 where t: "(if ulc \<noteq> PyStr ''en'' \<and> ulc \<noteq> PyNone \<and> strip_py message \<noteq> []
                  then gemini_translate gc message ulc (PyStr ''en'') 0.1 w
                  else (message, w)) = (ume, w1)"
    by (cases "(if ulc \<noteq> PyStr ''en'' \<and> ulc \<noteq> PyNone \<and> strip_py message \<noteq> []
                  then gemini_translate gc message ulc (PyStr ''en'') 0.1 w
                  else (message, w))") auto
  obtain es0 ts0 w2 where p: "previous_summary gc state ulc w1 = ((es0, ts0), w2)"
    by (cases "previous_summary gc state ulc w1") auto
  show ?thesis
    unfolding process_chat_try_def assms option.case Let_def ulc_def [symmetric] t p prod.case
    by blast
qed

lemma process_chat_ok:
  assumes "process_chat_try gc message state w = (Inr (reply, es, ts, s'), w')"
  shows "process_chat gc message history state w =
           (((case history of None \<Rightarrow> [] | Some h \<Rightarrow> h) @ [(message, reply)], es, ts, s'), w')"
  using assms by (simp add: process_chat_def Let_def set_last_reply_def)

text \<open>
  Claim C3, as stated, fails for a language name with whitespace around it: such an
  input is no supported language name in any capitalization, and line 310 trims it
  before the lookup, so that the turn accepts it and leaves the stage AskLanguage.
\<close>

theorem ask_language_padded_counterexample:
  "\<not> supported_input '' hiNDi''
   \<and> stage initialize_chat_state = Some (PyStr CHAT_STAGE_ASK_LANGUAGE)
   \<and> stage (snd (snd (snd (fst (process_chat None '' hiNDi'' None initialize_chat_state ())))))
       = Some (PyStr CHAT_STAGE_ASK_SYMPTOMS)
   \<and> CHAT_STAGE_ASK_SYMPTOMS \<noteq> CHAT_STAGE_ASK_LANGUAGE"
proof -
  have a: "\<not> supported_input '' hiNDi''" by code_simp
  have b: "stage initialize_chat_state = Some (PyStr CHAT_STAGE_ASK_LANGUAGE)"
    by (simp add: initialize_chat_state_def)
  have c: "stage (snd (snd (snd (fst (process_chat None '' hiNDi'' None
      initialize_chat_state ()))))) = Some (PyStr CHAT_STAGE_ASK_SYMPTOMS)"
    by code_simp
  from a b c stage_names_distinct(1) show ?thesis by simp
qed

text \<open>
  Claim C3, amended. In the stage AskLanguage, an input that is, once the whitespace
  around it is trimmed, a supported language name in any capitalization is accepted:
  the turn stores the name as it is written in \<^verbatim>\<open>LANG_CODES\<close> and the code that
  \<^verbatim>\<open>LANG_CODES\<close> gives for it, and moves to AskSymptoms (the session has its turn
  history, as every session that the program builds has). Every other input leaves the
  session as it is, so that the stage remains AskLanguage, and the reply is the English
  sentence that lists the supported languages.
\<close>

theorem ask_language_supported:
  "stage state = Some (PyStr CHAT_STAGE_ASK_LANGUAGE) \<longrightarrow>
     (supported_language name (strip_py message) \<and> gemini_chat_history_manual state \<noteq> None \<longrightarrow>
        stage (snd (snd (snd (fst (process_chat gc message history state w)))))
          = Some (PyStr CHAT_STAGE_ASK_SYMPTOMS)
        \<and> language (snd (snd (snd (fst (process_chat gc message history state w)))))
          = Some (PyStr name)
        \<and> map_of LANG_CODES name \<noteq> None
        \<and> lang_code (snd (snd (snd (fst (process_chat gc message history state w)))))
          = map_option PyStr (map_of LANG_CODES name))
     \<and> (\<not> supported_input (strip_py message) \<longrightarrow>
        snd (snd (snd (fst (process_chat gc message history state w)))) = state
        \<and> fst (fst (process_chat gc message history state w)) =
            (case history of None \<Rightarrow> [] | Some h \<Rightarrow> h)
            @ [(message,
                ''Sorry, '' @ apos @ message @ apos
                @ '' is not a supported language. Please select from: ''
                @ ''Arabic, Bengali, Chinese, English, French, German, Hindi, Italian, Japanese, Kannada, Korean, Portuguese, Russian, Spanish, Tamil, Telugu, Thai, Turkish, Ukrainian, Vietnamese'')])"
proof (intro impI conjI)
  assume st: "stage state = Some (PyStr CHAT_STAGE_ASK_LANGUAGE)"
  from process_chat_try_dispatch [OF st, of gc message w]
  obtain es0 ts0 w2 where d: "process_chat_try gc message state w =
      ask_language gc message state es0 ts0 w2" by auto
  {
    assume a: "supported_language name (strip_py message) \<and> gemini_chat_history_manual state \<noteq> None"
    then have t: "title_py (strip_py message) = name" using supported_language_title by blast
    from a have "name \<in> set (map fst LANG_CODES)" by (simp add: supported_language_def)
    then obtain code where c: "map_of LANG_CODES name = Some code"
      by (metis map_of_eq_None_iff not_Some_eq set_map)
    from a obtain h where h: "gemini_chat_history_manual state = Some h" by auto
    from ask_language_accept [of message code state h gc es0 ts0 w2] c t h
    obtain reply w' where "ask_language gc message state es0 ts0 w2 =
           (Inr (reply, es0, ts0,
              state\<lparr>language := Some (PyStr name),
                    lang_code := Some (PyStr code),
                    stage := Some (PyStr CHAT_STAGE_ASK_SYMPTOMS),
                    gemini_chat_history_manual :=
                      Some (h @ [Turn ''user'' (''User selected language: '' @ name),
                                 Turn ''model'' (''Thank you. Your selected language is ''
                                   @ name @ ''.'' @ nl @ nl
                                   @ ''Please describe your symptoms.'')])\<rparr>), w')"
      by auto
    with d have r: "snd (snd (snd (fst (process_chat gc message history state w)))) =
              state\<lparr>language := Some (PyStr name),
                    lang_code := Some (PyStr code),
                    stage := Some (PyStr CHAT_STAGE_ASK_SYMPTOMS),
                    gemini_chat_history_manual :=
                      Some (h @ [Turn ''user'' (''User selected language: '' @ name),
                                 Turn ''model'' (''Thank you. Your selected language is ''
                                   @ name @ ''.'' @ nl @ nl
                                   @ ''Please describe your symptoms.'')])\<rparr>"
      by (simp add: process_chat_ok)
    show "stage (snd (snd (snd (fst (process_chat gc message history state w)))))
          = Some (PyStr CHAT_STAGE_ASK_SYMPTOMS)" unfolding r by simp
    show "language (snd (snd (snd (fst (process_chat gc message history state w)))))
          = Some (PyStr name)" unfolding r by simp
    show "map_of LANG_CODES name \<noteq> None" using c by simp
    show "lang_code (snd (snd (snd (fst (process_chat gc message history state w)))))
          = map_option PyStr (map_of LANG_CODES name)" unfolding r using c by simp
  }
  {
    assume "\<not> supported_input (strip_py message)"
    then have "title_py (strip_py message) \<notin> set (map fst LANG_CODES)"
      by (simp add: supported_input_iff)
    then have n: "map_of LANG_CODES (title_py (strip_py message)) = None"
      by (simp add: map_of_eq_None_iff)
    from d ask_language_reject [OF n, of gc state es0 ts0 w2]
    have "process_chat_try gc message state w =
           (Inr (''Sorry, '' @ apos @ message @ apos
                    @ '' is not a supported language. Please select from: ''
                    @ join_py '', '' (sort (map fst LANG_CODES)), es0, ts0, state), w2)"
      by simp
    from process_chat_ok [OF this, of history]
    show "snd (snd (snd (fst (process_chat gc message history state w)))) = state"
      and "fst (fst (process_chat gc message history state w)) =
            (case history of None \<Rightarrow> [] | Some h \<Rightarrow> h)
            @ [(message,
                ''Sorry, '' @ apos @ message @ apos
                @ '' is not a supported language. Please select from: ''
                @ ''Arabic, Bengali, Chinese, English, French, German, Hindi, Italian, Japanese, Kannada, Korean, Portuguese, Russian, Spanish, Tamil, Telugu, Thai, Turkish, Ukrainian, Vietnamese'')]"
      by (simp_all add: available_languages)
  }
qed

theorem ask_language_supported_witness:
  "stage initialize_chat_state = Some (PyStr CHAT_STAGE_ASK_LANGUAGE)
   \<and> supported_language ''Hindi'' (strip_py '' hiNDi'')
   \<and> gemini_chat_history_manual initialize_chat_state \<noteq> None
   \<and> stage (snd (snd (snd (fst (process_chat None '' hiNDi'' None initialize_chat_state ())))))
       = Some (PyStr CHAT_STAGE_ASK_SYMPTOMS)
   \<and> language (snd (snd (snd (fst (process_chat None '' hiNDi'' None initialize_chat_state ())))))
       = Some (PyStr ''Hindi'')
   \<and> lang_code (snd (snd (snd (fst (process_chat None '' hiNDi'' None initialize_chat_state ())))))
       = Some (PyStr ''hi'')
   \<and> \<not> supported_input (strip_py ''klingon'')
   \<and> snd (snd (snd (fst (process_chat None ''klingon'' None initialize_chat_state ()))))
       = initialize_chat_state
   \<and> fst (fst (process_chat None ''klingon'' None initialize_chat_state ())) =
       [(''klingon'',
         ''Sorry, '' @ apos @ ''klingon'' @ apos
         @ '' is not a supported language. Please select from: ''
         @ ''Arabic, Bengali, Chinese, English, French, German, Hindi, Italian, Japanese, Kannada, Korean, Portuguese, Russian, Spanish, Tamil, Telugu, Thai, Turkish, Ukrainian, Vietnamese'')]"
proof -
  have a: "stage initialize_chat_state = Some (PyStr CHAT_STAGE_ASK_LANGUAGE)"
    by (simp add: initialize_chat_state_def)
  have b: "supported_language ''Hindi'' (strip_py '' hiNDi'')" by code_simp
  have c: "gemini_chat_history_manual initialize_chat_state \<noteq> None"
    by (simp add: initialize_chat_state_def)
  have d: "\<not> supported_input (strip_py ''klingon'')" by code_simp
  have m: "map_option PyStr (map_of LANG_CODES ''Hindi'') = Some (PyStr ''hi'')"
    by (simp add: LANG_CODES_def)
  note T1 = ask_language_supported [of initialize_chat_state "''Hindi''" "'' hiNDi''" None None "()"]
  note T2 = ask_language_supported [of initialize_chat_state "''Hindi''" "''klingon''" None None "()"]
  from T1 a b c m T2 d show ?thesis by simp
qed

text \<open>
  Claim C7. When the body of the \<^verbatim>\<open>try\<close> block of a turn raises an exception, the
  turn returns the chat history with the error string as the reply to the message, the
  error string in place of both summaries, and the initial session state, in which
  language, symptoms, allergies, full response, summary and turn history are empty.
\<close>

theorem process_chat_exception_reset:
  "process_chat_try gc message state w = (Inl e, w') \<longrightarrow>
     process_chat gc message history state w =
       (((case history of None \<Rightarrow> [] | Some h \<Rightarrow> h)
           @ [(message, ''An error occurred: '' @ str_exn e
                 @ ''. Please try again or restart the conversation.'')],
         ''Error: '' @ ''An error occurred: '' @ str_exn e
           @ ''. Please try again or restart the conversation.'',
         ''Error: '' @ ''An error occurred: '' @ str_exn e
           @ ''. Please try again or restart the conversation.'',
         initialize_chat_state), w')
     \<and> language initialize_chat_state = Some PyNone
     \<and> lang_code initialize_chat_state = Some PyNone
     \<and> symptoms_user_lang initialize_chat_state = Some PyNone
     \<and> symptoms_en initialize_chat_state = Some PyNone
     \<and> allergies_user_lang initialize_chat_state = Some PyNone
     \<and> allergies_en initialize_chat_state = Some PyNone
     \<and> drug_concept_full_en initialize_chat_state = Some PyNone
     \<and> translated_summary initialize_chat_state = None
     \<and> gemini_chat_history_manual initialize_chat_state = Some []"
  using process_chat_exception [of gc message state w e w' history]
  by (simp add: error_message_def initialize_chat_state_def)

theorem process_chat_exception_reset_witness:
  "process_chat_try None ''hello'' sample_broken_state () = (Inl (KeyError ''stage''), ())
   \<and> process_chat None ''hello'' (Some [(''hi'', ''there'')]) sample_broken_state () =
       (([(''hi'', ''there''),
          (''hello'', ''An error occurred: '' @ apos @ ''stage'' @ apos
                 @ ''. Please try again or restart the conversation.'')],
         ''Error: An error occurred: '' @ apos @ ''stage'' @ apos
           @ ''. Please try again or restart the conversation.'',
         ''Error: An error occurred: '' @ apos @ ''stage'' @ apos
           @ ''. Please try again or restart the conversation.'',
         initialize_chat_state), ())"
proof -
  have e: "process_chat_try None ''hello'' sample_broken_state () = (Inl (KeyError ''stage''), ())"
    by (simp add: process_chat_try_def sample_broken_state_def)
  from process_chat_exception_reset [of None "''hello''" sample_broken_state "()"
      "KeyError ''stage''" "()" "Some [(''hi'', ''there'')]"] e
  show ?thesis by (simp add: KeyError_def)
qed

text \<open>
  Claim C10. A turn in the stage GeneralQnA that raises no exception returns the session
  with one user entry and one model entry appended to the turn history and every other
  field as it was: stage, language, language code, symptoms and allergies in both forms,
  the full response and the stored translated summary.
\<close>

theorem general_qna_frame:
  "stage state = Some (PyStr CHAT_STAGE_GENERAL_QNA)
   \<and> process_chat_try gc message state w = (Inr (reply, es, ts, s'), w') \<longrightarrow>
     snd (snd (snd (fst (process_chat gc message history state w)))) = s'
     \<and> (\<exists>h user_message_en qna_response.
           gemini_chat_history_manual state = Some h
           \<and> s' = state\<lparr>gemini_chat_history_manual :=
                   Some (h @ [Turn ''user'' user_message_en, Turn ''model'' qna_response])\<rparr>)
     \<and> stage s' = stage state \<and> language s' = language state
     \<and> lang_code s' = lang_code state
     \<and> symptoms_user_lang s' = symptoms_user_lang state \<and> symptoms_en s' = symptoms_en state
     \<and> allergies_user_lang s' = allergies_user_lang state
     \<and> allergies_en s' = allergies_en state
     \<and> drug_concept_full_en s' = drug_concept_full_en state
     \<and> translated_summary s' = translated_summary state"
proof (intro impI, elim conjE)
  assume st: "stage state = Some (PyStr CHAT_STAGE_GENERAL_QNA)"
    and ok: "process_chat_try gc message state w = (Inr (reply, es, ts, s'), w')"
  from process_chat_try_dispatch [OF st, of gc message w] ok
  obtain ume es0 ts0 w2 where
    "general_qna gc ume (dict_get (lang_code state) (PyStr ''en'')) state es0 ts0 w2 =
       (Inr (reply, es, ts, s'), w')"
    by (auto simp: stage_names_distinct stage_names_distinct [symmetric])
  from general_qna_state [OF this] obtain h r where
    h: "gemini_chat_history_manual state = Some h"
    and s': "s' = state\<lparr>gemini_chat_history_manual :=
                   Some (h @ [Turn ''user'' ume, Turn ''model'' r])\<rparr>"
    by blast
  have r: "snd (snd (snd (fst (process_chat gc message history state w)))) = s'"
    by (simp add: process_chat_ok [OF ok])
  from h s' have ex: "\<exists>h user_message_en qna_response.
           gemini_chat_history_manual state = Some h
           \<and> s' = state\<lparr>gemini_chat_history_manual :=
                   Some (h @ [Turn ''user'' user_message_en, Turn ''model'' qna_response])\<rparr>"
    by blast
  from r ex show "snd (snd (snd (fst (process_chat gc message history state w)))) = s'
     \<and> (\<exists>h user_message_en qna_response.
           gemini_chat_history_manual state = Some h
           \<and> s' = state\<lparr>gemini_chat_history_manual :=
                   Some (h @ [Turn ''user'' user_message_en, Turn ''model'' qna_response])\<rparr>)
     \<and> stage s' = stage state \<and> language s' = language state
     \<and> lang_code s' = lang_code state
     \<and> symptoms_user_lang s' = symptoms_user_lang state \<and> symptoms_en s' = symptoms_en state
     \<and> allergies_user_lang s' = allergies_user_lang state
     \<and> allergies_en s' = allergies_en state
     \<and> drug_concept_full_en s' = drug_concept_full_en state
     \<and> translated_summary s' = translated_summary state"
    by (simp add: s')
qed

lemma sample_qna_turn:
  "\<exists>reply es ts w'. process_chat_try (Some (canned_client ''because'')) ''why?'' sample_qna_state 0 =
     (Inr (reply, es, ts, sample_qna_result), w')"
  by (simp add: process_chat_try_def sample_qna_state_def sample_qna_result_def dict_get_def
        stage_names_distinct stage_names_distinct [symmetric] general_qna_def Let_def
        get_gemini_response_def canned_client_def
        split: prod.splits)

theorem general_qna_frame_witness:
  "stage sample_qna_state = Some (PyStr CHAT_STAGE_GENERAL_QNA)
   \<and> snd (snd (snd (fst (process_chat (Some (canned_client ''because'')) ''why?'' None
         sample_qna_state 0)))) = sample_qna_result
   \<and> translated_summary sample_qna_result = Some (PyStr ''### Diagnosis: cold'')
   \<and> lang_code sample_qna_result = Some (PyStr ''en'')"
proof -
  have st: "stage sample_qna_state = Some (PyStr CHAT_STAGE_GENERAL_QNA)"
    by (simp add: sample_qna_state_def)
  from sample_qna_turn obtain reply es ts w' where
    ok: "process_chat_try (Some (canned_client ''because'')) ''why?'' sample_qna_state 0 =
     (Inr (reply, es, ts, sample_qna_result), w')" by blast
  from general_qna_frame [of sample_qna_state "Some (canned_client ''because'')" "''why?''" 0
      reply es ts sample_qna_result w' None] st ok
  have "snd (snd (snd (fst (process_chat (Some (canned_client ''because'')) ''why?'' None
         sample_qna_state 0)))) = sample_qna_result
     \<and> translated_summary sample_qna_result = translated_summary sample_qna_state
     \<and> lang_code sample_qna_result = lang_code sample_qna_state"
    by blast
  with st show ?thesis by (simp add: sample_qna_state_def)
qed

lemma turn_effect_lang_code:
  assumes "turn_effect message s s'" "lang_code s' \<noteq> lang_code s"
  shows "s' = initialize_chat_state
     \<or> (stage s = Some (PyStr CHAT_STAGE_ASK_LANGUAGE)
        \<and> supported_input (strip_py message)
        \<and> stage s' = Some (PyStr CHAT_STAGE_ASK_SYMPTOMS)
        \<and> lang_code s' = map_option PyStr (map_of LANG_CODES (title_py (strip_py message))))"
proof -
  have "map_of LANG_CODES (title_py (strip_py message)) \<noteq> None \<Longrightarrow> supported_input (strip_py message)"
    by (simp add: supported_input_iff map_of_eq_None_iff)
  with assms show ?thesis by (auto simp: turn_effect_def)
qed

lemma turn_effect_keeps:
  assumes "turn_effect message s s'" "stage s \<noteq> Some (PyStr CHAT_STAGE_ASK_LANGUAGE)"
  shows "s' = initialize_chat_state
     \<or> (lang_code s' = lang_code s \<and> stage s' \<noteq> Some (PyStr CHAT_STAGE_ASK_LANGUAGE))"
  using assms
  by (auto simp: turn_effect_def stage_names_distinct stage_names_distinct [symmetric])

lemma handle_event_keeps:
  assumes "handle_event gc ev (u, w) = (u', w')"
    and "stage (snd (snd (snd u))) \<noteq> Some (PyStr CHAT_STAGE_ASK_LANGUAGE)"
  shows "snd (snd (snd u')) = initialize_chat_state
     \<or> (lang_code (snd (snd (snd u'))) = lang_code (snd (snd (snd u)))
        \<and> stage (snd (snd (snd u'))) \<noteq> Some (PyStr CHAT_STAGE_ASK_LANGUAGE))"
proof (cases ev)
  case (Send message)
  obtain chatbot es ts state where u: "u = (chatbot, es, ts, state)" by (cases u) auto
  obtain h' es' ts' s' where u': "u' = (h', es', ts', s')" by (cases u') auto
  from assms Send u u' have "process_chat gc message (Some chatbot) state w = ((h', es', ts', s'), w')"
    by simp
  then have "turn_effect message state s'" by (rule process_chat_effect)
  from turn_effect_keeps [OF this] assms(2) u u' show ?thesis by simp
next
  case DownloadReport
  with assms show ?thesis by auto
next
  case NewConsultation
  with assms show ?thesis by auto
qed

lemma session_trace_lang_code:
  assumes "stage (snd (snd (snd (fst u)))) \<noteq> Some (PyStr CHAT_STAGE_ASK_LANGUAGE)"
    and "initialize_chat_state \<notin> set (session_trace gc evs u)"
  shows "\<forall>s \<in> set (session_trace gc evs u). lang_code s = lang_code (snd (snd (snd (fst u))))"
  using assms
proof (induction evs arbitrary: u)
  case Nil
  then show ?case by simp
next
  case (Cons ev evs)
  obtain u0 w where u: "u = (u0, w)" by (cases u) auto
  obtain u1 w1 where h: "handle_event gc ev (u0, w) = (u1, w1)"
    by (cases "handle_event gc ev (u0, w)") auto
  have "session_trace gc evs (u1, w1) ! 0 \<in> set (session_trace gc evs (u1, w1))"
    by (rule nth_mem) (simp add: session_trace_length)
  then have "snd (snd (snd u1)) \<in> set (session_trace gc evs (u1, w1))"
    by (simp add: session_trace_hd)
  with Cons.prems(2) u h have ne: "snd (snd (snd u1)) \<noteq> initialize_chat_state" by auto
  from handle_event_keeps [OF h] Cons.prems(1) u ne
  have k: "lang_code (snd (snd (snd u1))) = lang_code (snd (snd (snd u0)))"
    "stage (snd (snd (snd u1))) \<noteq> Some (PyStr CHAT_STAGE_ASK_LANGUAGE)" by auto
  from Cons.prems(2) u h have "initialize_chat_state \<notin> set (session_trace gc evs (u1, w1))"
    by simp
  with Cons.IH [of "(u1, w1)"] k(2)
  have "\<forall>s \<in> set (session_trace gc evs (u1, w1)). lang_code s = lang_code (snd (snd (snd u1)))"
    by simp
  with k(1) u h show ?case by simp
qed

lemma turn_effect_fresh:
  assumes "turn_effect message s s'"
    and "stage s = Some (PyStr CHAT_STAGE_ASK_LANGUAGE) \<longrightarrow> s = initialize_chat_state"
  shows "stage s' = Some (PyStr CHAT_STAGE_ASK_LANGUAGE) \<longrightarrow> s' = initialize_chat_state"
  using assms
  by (auto simp: turn_effect_def stage_names_distinct stage_names_distinct [symmetric])

lemma handle_event_fresh:
  assumes "handle_event gc ev (u, w) = (u', w')"
    and "stage (snd (snd (snd u))) = Some (PyStr CHAT_STAGE_ASK_LANGUAGE)
         \<longrightarrow> snd (snd (snd u)) = initialize_chat_state"
  shows "stage (snd (snd (snd u'))) = Some (PyStr CHAT_STAGE_ASK_LANGUAGE)
         \<longrightarrow> snd (snd (snd u')) = initialize_chat_state"
proof (cases ev)
  case (Send message)
  obtain chatbot es ts state where u: "u = (chatbot, es, ts, state)" by (cases u) auto
  obtain h' es' ts' s' where u': "u' = (h', es', ts', s')" by (cases u') auto
  from assms Send u u' have "process_chat gc message (Some chatbot) state w = ((h', es', ts', s'), w')"
    by simp
  then have "turn_effect message state s'" by (rule process_chat_effect)
  from turn_effect_fresh [OF this] assms(2) u u' show ?thesis by simp
next
  case DownloadReport
  with assms show ?thesis by auto
next
  case NewConsultation
  with assms show ?thesis by auto
qed

lemma session_trace_fresh:
  assumes "stage (snd (snd (snd (fst u)))) = Some (PyStr CHAT_STAGE_ASK_LANGUAGE)
           \<longrightarrow> snd (snd (snd (fst u))) = initialize_chat_state"
  shows "\<forall>s \<in> set (session_trace gc evs u).
           stage s = Some (PyStr CHAT_STAGE_ASK_LANGUAGE) \<longrightarrow> s = initialize_chat_state"
  using assms
proof (induction evs arbitrary: u)
  case Nil
  then show ?case by simp
next
  case (Cons ev evs)
  obtain u0 w where u: "u = (u0, w)" by (cases u) auto
  obtain u1 w1 where h: "handle_event gc ev (u0, w) = (u1, w1)"
    by (cases "handle_event gc ev (u0, w)") auto
  from handle_event_fresh [OF h] Cons.prems u
  have "stage (snd (snd (snd u1))) = Some (PyStr CHAT_STAGE_ASK_LANGUAGE)
         \<longrightarrow> snd (snd (snd u1)) = initialize_chat_state" by simp
  with Cons.IH [of "(u1, w1)"] Cons.prems u h show ?case by simp
qed

lemma session_trace_initial_unset:
  "\<forall>s \<in> set (session_trace gc evs (initial_ui, w)).
     stage s = Some (PyStr CHAT_STAGE_ASK_LANGUAGE) \<longrightarrow> lang_code s = Some PyNone"
proof -
  have "\<forall>s \<in> set (session_trace gc evs (initial_ui, w)).
           stage s = Some (PyStr CHAT_STAGE_ASK_LANGUAGE) \<longrightarrow> s = initialize_chat_state"
    by (rule session_trace_fresh) (simp add: initial_ui_def)
  then show ?thesis by (auto simp: initialize_chat_state_def)
qed

text \<open>
  Claim C9. A turn changes the language code only by a reset to the initial state or
  in the stage AskLanguage on a supported input, where it sets the code of the chosen
  language and moves to AskSymptoms. From a session whose stage is not AskLanguage, as
  long as no event puts the initial state in place, every later session state has the
  same language code. In every session that starts when the page is opened, the code is
  unset whenever the stage is AskLanguage, so that the turn of AskLanguage sets it for
  the first time.
\<close>

theorem lang_code_set_once:
  "(lang_code (snd (snd (snd (fst (process_chat gc message history state w)))))
      \<noteq> lang_code state \<longrightarrow>
      snd (snd (snd (fst (process_chat gc message history state w)))) = initialize_chat_state
      \<or> (stage state = Some (PyStr CHAT_STAGE_ASK_LANGUAGE)
         \<and> supported_input (strip_py message)
         \<and> stage (snd (snd (snd (fst (process_chat gc message history state w)))))
             = Some (PyStr CHAT_STAGE_ASK_SYMPTOMS)
         \<and> lang_code (snd (snd (snd (fst (process_chat gc message history state w)))))
             = map_option PyStr (map_of LANG_CODES (title_py (strip_py message)))))
   \<and> (stage (snd (snd (snd (fst u)))) \<noteq> Some (PyStr CHAT_STAGE_ASK_LANGUAGE)
       \<and> initialize_chat_state \<notin> set (session_trace gc evs u) \<longrightarrow>
       (\<forall>s \<in> set (session_trace gc evs u). lang_code s = lang_code (snd (snd (snd (fst u))))))
   \<and> (\<forall>s \<in> set (session_trace gc evs (initial_ui, w0)).
         stage s = Some (PyStr CHAT_STAGE_ASK_LANGUAGE) \<longrightarrow> lang_code s = Some PyNone)"
proof -
  obtain h' es ts s' w' where p: "process_chat gc message history state w = ((h', es, ts, s'), w')"
    by (metis prod.exhaust)
  then have "turn_effect message state s'" by (rule process_chat_effect)
  with p turn_effect_lang_code [of message state s'] session_trace_lang_code [of u gc evs]
    session_trace_initial_unset [of gc evs w0]
  show ?thesis by auto
qed

theorem lang_code_set_once_witness:
  "lang_code initialize_chat_state = Some PyNone
   \<and> lang_code (snd (snd (snd (fst (process_chat None ''english'' None initialize_chat_state ())))))
       = Some (PyStr ''en'')
   \<and> stage (snd (snd (snd (fst (process_chat None ''english'' None initialize_chat_state ())))))
       = Some (PyStr CHAT_STAGE_ASK_SYMPTOMS)
   \<and> supported_input (strip_py ''english'')
   \<and> stage sample_qna_state \<noteq> Some (PyStr CHAT_STAGE_ASK_LANGUAGE)
   \<and> initialize_chat_state \<notin>
        set (session_trace None [Send ''why?'', DownloadReport] (([], [], [], sample_qna_state), ()))
   \<and> map lang_code (session_trace None [Send ''why?'', DownloadReport]
                          (([], [], [], sample_qna_state), ()))
       = [Some (PyStr ''en''), Some (PyStr ''en''), Some (PyStr ''en'')]
   \<and> stage (session_trace None [Send ''klingon''] (initial_ui, ()) ! 1)
       = Some (PyStr CHAT_STAGE_ASK_LANGUAGE)
   \<and> lang_code (session_trace None [Send ''klingon''] (initial_ui, ()) ! 1) = Some PyNone"
proof -
  let ?s1 = "snd (snd (snd (fst (process_chat None ''english'' None initialize_chat_state ()))))"
  let ?tr = "session_trace None [Send ''why?'', DownloadReport] (([], [], [], sample_qna_state), ())"
  have a: "lang_code initialize_chat_state = Some PyNone"
    by (simp add: initialize_chat_state_def)
  have b: "lang_code ?s1 = Some (PyStr ''en'')" by code_simp
  have ne: "?s1 \<noteq> initialize_chat_state" using a b by auto
  have c: "stage sample_qna_state \<noteq> Some (PyStr CHAT_STAGE_ASK_LANGUAGE)"
    by (simp add: sample_qna_state_def stage_names_distinct [symmetric])
  have d: "initialize_chat_state \<notin> set ?tr" by code_simp
  note T = lang_code_set_once [of None "''english''" None initialize_chat_state "()"
      "(([], [], [], sample_qna_state), ())" "[Send ''why?'', DownloadReport]"]
  note K = lang_code_set_once [of None "''english''" None initialize_chat_state "()"
      "(initial_ui, ())" "[Send ''klingon'']" "()"]
  let ?tk = "session_trace None [Send ''klingon''] (initial_ui, ())"
  have k1: "stage (?tk ! 1) = Some (PyStr CHAT_STAGE_ASK_LANGUAGE)" by code_simp
  have "?tk ! 1 \<in> set ?tk" by (rule nth_mem) (simp add: session_trace_length)
  with K k1 have k2: "lang_code (?tk ! 1) = Some PyNone" by blast
  from T a b ne have e: "supported_input (strip_py ''english'')"
    "stage ?s1 = Some (PyStr CHAT_STAGE_ASK_SYMPTOMS)" by auto
  from T c d have "\<forall>s \<in> set ?tr. lang_code s = lang_code sample_qna_state" by simp
  then have f: "\<forall>s \<in> set ?tr. lang_code s = Some (PyStr ''en'')"
    by (simp add: sample_qna_state_def)
  have "length ?tr = 3" by (simp add: session_trace_length)
  then obtain x y z where xyz: "?tr = [x, y, z]"
    by (auto simp: length_Suc_conv numeral_3_eq_3)
  with f have g: "map lang_code ?tr = [Some (PyStr ''en''), Some (PyStr ''en''), Some (PyStr ''en'')]"
    by simp
  from a b c d e g k1 k2 show ?thesis by blast
qed

lemma build_summaries_ok:
  "\<exists>es ts w'. build_summaries gc diagnosis_response symptoms allergies (Some su)
       allergies_user ulc w = (Inr (es, ts), w')"
  by (simp add: build_summaries_def Let_def split: prod.splits)










section \<open>Resets and the order of the stages\<close>

lemma lang_codes_nonempty:
  assumes "map_of LANG_CODES name = Some code"
  shows "code \<noteq> []"
proof -
  from assms have "(name, code) \<in> set LANG_CODES" by (rule map_of_SomeD)
  then show ?thesis by (auto simp: LANG_CODES_def)
qed

lemma ask_symptoms_set:
  assumes "ask_symptoms gc message ume ulc state es ts w = (Inr (reply, es', ts', s'), w')"
    and "truthy ulc"
  shows "s' = state \<or> stage s' = Some (PyStr CHAT_STAGE_ASK_ALLERGIES)"
  using assms
  by (auto simp: ask_symptoms_def Let_def split: option.splits prod.splits if_splits)

lemma ask_allergies_set:
  assumes "ask_allergies gc message ume ulc state es ts w = (Inr (reply, es', ts', s'), w')"
    and "truthy ulc"
  shows "stage s' = Some (PyStr CHAT_STAGE_GENERAL_QNA)"
  using assms
  by (auto simp: ask_allergies_def Let_def split: option.splits prod.splits if_splits sum.splits)

lemma ask_language_step:
  assumes "ask_language gc message state es ts w = (Inr (reply, es', ts', s'), w')"
  shows "s' = state \<or> stage s' = Some (PyStr CHAT_STAGE_ASK_SYMPTOMS)"
  using ask_language_state [OF assms] by blast

lemma general_qna_step:
  assumes "general_qna gc ume ulc state es ts w = (Inr (reply, es', ts', s'), w')"
  shows "stage s' = stage state"
  using general_qna_state [OF assms] by auto

lemma send_step:
  assumes ok: "process_chat_try gc message state w = (Inr (reply, es, ts, s'), w')"
    and set: "\<not> language_not_set state"
  shows "stage_step state s'"
proof (cases "stage state")
  case None
  with ok show ?thesis by (simp add: process_chat_try_def)
next
  case (Some current_stage)
  let ?ulc = "dict_get (lang_code state) (PyStr ''en'')"
  from process_chat_try_dispatch [OF Some, of gc message w] ok
  obtain ume es0 ts0 w2 where d:
    "(if current_stage = PyStr CHAT_STAGE_ASK_LANGUAGE then
          ask_language gc message state es0 ts0 w2
        else if current_stage = PyStr CHAT_STAGE_ASK_SYMPTOMS then
          ask_symptoms gc message ume ?ulc state es0 ts0 w2
        else if current_stage = PyStr CHAT_STAGE_ASK_ALLERGIES then
          ask_allergies gc message ume ?ulc state es0 ts0 w2
        else if current_stage = PyStr CHAT_STAGE_GENERAL_QNA then
          general_qna gc ume ?ulc state es0 ts0 w2
        else (Inr ([], es0, ts0, state), w2)) = (Inr (reply, es, ts, s'), w')"
    by auto
  consider (lang) "current_stage = PyStr CHAT_STAGE_ASK_LANGUAGE"
    | (symp) "current_stage = PyStr CHAT_STAGE_ASK_SYMPTOMS"
    | (allerg) "current_stage = PyStr CHAT_STAGE_ASK_ALLERGIES"
    | (qna) "current_stage = PyStr CHAT_STAGE_GENERAL_QNA"
    | (other) "current_stage \<noteq> PyStr CHAT_STAGE_ASK_LANGUAGE"
        "current_stage \<noteq> PyStr CHAT_STAGE_ASK_SYMPTOMS"
        "current_stage \<noteq> PyStr CHAT_STAGE_ASK_ALLERGIES"
        "current_stage \<noteq> PyStr CHAT_STAGE_GENERAL_QNA"
    by blast
  then show ?thesis
  proof cases
    case lang
    with d have "ask_language gc message state es0 ts0 w2 = (Inr (reply, es, ts, s'), w')"
      by simp
    from ask_language_step [OF this] lang Some show ?thesis
      by (auto simp: stage_step_def turn_transitions_def)
  next
    case symp
    with d have a: "ask_symptoms gc message ume ?ulc state es0 ts0 w2 = (Inr (reply, es, ts, s'), w')"
      by (simp add: stage_names_distinct stage_names_distinct [symmetric])
    from set symp Some have "truthy ?ulc" by (simp add: language_not_set_def)
    from ask_symptoms_set [OF a this] symp Some show ?thesis
      by (auto simp: stage_step_def turn_transitions_def)
  next
    case allerg
    with d have a: "ask_allergies gc message ume ?ulc state es0 ts0 w2 = (Inr (reply, es, ts, s'), w')"
      by (simp add: stage_names_distinct stage_names_distinct [symmetric])
    from set allerg Some have "truthy ?ulc" by (simp add: language_not_set_def)
    from ask_allergies_set [OF a this] allerg Some show ?thesis
      by (auto simp: stage_step_def turn_transitions_def)
  next
    case qna
    with d have "general_qna gc ume ?ulc state es0 ts0 w2 = (Inr (reply, es, ts, s'), w')"
      by (simp add: stage_names_distinct stage_names_distinct [symmetric])
    from general_qna_step [OF this] show ?thesis
      by (simp add: stage_step_def)
  next
    case other
    with d have "s' = state" by simp
    then show ?thesis by (simp add: stage_step_def)
  qed
qed

lemma language_not_set_reset:
  assumes "language_not_set state"
  shows "\<exists>reply es ts w'. process_chat_try gc message state w =
           (Inr (reply, es, ts, initialize_chat_state), w')"
proof -
  let ?ulc = "dict_get (lang_code state) (PyStr ''en'')"
  from assms have f: "\<not> truthy ?ulc" by (simp add: language_not_set_def)
  from assms consider "stage state = Some (PyStr CHAT_STAGE_ASK_SYMPTOMS)"
    | "stage state = Some (PyStr CHAT_STAGE_ASK_ALLERGIES)"
    by (auto simp: language_not_set_def)
  then show ?thesis
  proof cases
    case 1
    from process_chat_try_dispatch [OF 1, of gc message w]
    obtain ume es0 ts0 w2 where "process_chat_try gc message state w =
        ask_symptoms gc message ume ?ulc state es0 ts0 w2"
      by (auto simp: stage_names_distinct stage_names_distinct [symmetric])
    with f show ?thesis by (simp add: ask_symptoms_def)
  next
    case 2
    from process_chat_try_dispatch [OF 2, of gc message w]
    obtain ume es0 ts0 w2 where "process_chat_try gc message state w =
        ask_allergies gc message ume ?ulc state es0 ts0 w2"
      by (auto simp: stage_names_distinct stage_names_distinct [symmetric])
    with f show ?thesis by (simp add: ask_allergies_def)
  qed
qed

lemma handle_event_reset:
  assumes "reset_event gc ev (u, w)"
  shows "snd (snd (snd (fst (handle_event gc ev (u, w))))) = initialize_chat_state"
proof (cases ev)
  case (Send message)
  obtain chatbot es ts state where u: "u = (chatbot, es, ts, state)" by (cases u) auto
  from assms Send u consider (raises) "turn_raises gc message state w"
    | (unset) "language_not_set state" by auto
  then show ?thesis
  proof cases
    case raises
    then obtain e w' where "process_chat_try gc message state w = (Inl e, w')"
      by (cases "process_chat_try gc message state w")
        (auto simp: turn_raises_def split: sum.splits)
    from process_chat_exception [OF this] Send u show ?thesis by simp
  next
    case unset
    from language_not_set_reset [OF this, of gc message w]
    obtain reply es1 ts1 w' where "process_chat_try gc message state w =
           (Inr (reply, es1, ts1, initialize_chat_state), w')" by blast
    from process_chat_ok [OF this] Send u show ?thesis by simp
  qed
next
  case DownloadReport
  with assms show ?thesis by simp
next
  case NewConsultation
  then show ?thesis by simp
qed

lemma handle_event_no_reset:
  assumes "\<not> reset_event gc ev (u, w)"
  shows "stage_step (snd (snd (snd u))) (snd (snd (snd (fst (handle_event gc ev (u, w))))))"
proof (cases ev)
  case (Send message)
  obtain chatbot es ts state where u: "u = (chatbot, es, ts, state)" by (cases u) auto
  from assms Send u have nr: "\<not> turn_raises gc message state w"
    and set: "\<not> language_not_set state" by auto
  from nr obtain reply es1 ts1 s' w' where
    ok: "process_chat_try gc message state w = (Inr (reply, es1, ts1, s'), w')"
    by (cases "process_chat_try gc message state w")
      (auto simp: turn_raises_def split: sum.splits)
  from send_step [OF ok set] process_chat_ok [OF ok] Send u show ?thesis by simp
next
  case DownloadReport
  then show ?thesis by (simp add: stage_step_def)
next
  case NewConsultation
  with assms show ?thesis by simp
qed

lemma session_run_hd: "session_run gc evs u ! 0 = u"
  by (cases evs) simp_all

lemma session_run_length: "length (session_run gc evs u) = Suc (length evs)"
  by (induction evs arbitrary: u) simp_all

lemma session_run_steps:
  assumes "k < length evs"
  shows "(reset_event gc (evs ! k) (session_run gc evs u ! k) \<longrightarrow>
            session_trace gc evs u ! Suc k = initialize_chat_state)
         \<and> (\<not> reset_event gc (evs ! k) (session_run gc evs u ! k) \<longrightarrow>
            stage_step (session_trace gc evs u ! k) (session_trace gc evs u ! Suc k))"
  using assms
proof (induction evs arbitrary: u k)
  case Nil
  then show ?case by simp
next
  case (Cons ev evs)
  obtain u0 w where u: "u = (u0, w)" by (cases u) auto
  show ?case
  proof (cases k)
    case 0
    have "session_trace gc (ev # evs) u ! Suc 0 =
          snd (snd (snd (fst (handle_event gc ev (u0, w)))))"
      using u by (simp add: session_trace_hd)
    with 0 u handle_event_reset [of gc ev u0 w] handle_event_no_reset [of gc ev u0 w]
    show ?thesis by simp
  next
    case (Suc j)
    with Cons.prems have "j < length evs" by simp
    from Cons.IH [OF this, of "handle_event gc ev u"] Suc show ?thesis by simp
  qed
qed

lemma well_formed_initial: "well_formed initialize_chat_state"
  by (simp add: well_formed_def language_not_set_def initialize_chat_state_def
      stage_names_distinct)

lemma ask_language_wf:
  assumes "well_formed state" "stage state = Some (PyStr CHAT_STAGE_ASK_LANGUAGE)"
  shows "\<exists>reply es' ts' s' w'.
      ask_language gc message state es ts w = (Inr (reply, es', ts', s'), w') \<and> well_formed s'"
proof (cases "map_of LANG_CODES (title_py (strip_py message))")
  case None
  with assms(1) show ?thesis by (simp add: ask_language_def Let_def)
next
  case (Some code)
  then have "code \<noteq> []" by (rule lang_codes_nonempty)
  with assms Some show ?thesis
    by (auto simp: ask_language_def Let_def well_formed_def language_not_set_def dict_get_def
        split: prod.splits)
qed

lemma ask_symptoms_wf:
  assumes "well_formed state" "stage state = Some (PyStr CHAT_STAGE_ASK_SYMPTOMS)"
  shows "\<exists>reply es' ts' s' w'.
      ask_symptoms gc message ume (dict_get (lang_code state) (PyStr ''en'')) state es ts w
        = (Inr (reply, es', ts', s'), w') \<and> well_formed s'"
  using assms
  by (auto simp: ask_symptoms_def Let_def well_formed_def language_not_set_def
      stage_names_distinct stage_names_distinct [symmetric] split: prod.splits)

lemma ask_allergies_wf:
  assumes "well_formed state" "stage state = Some (PyStr CHAT_STAGE_ASK_ALLERGIES)"
  shows "\<exists>reply es' ts' s' w'.
      ask_allergies gc message ume (dict_get (lang_code state) (PyStr ''en'')) state es ts w
        = (Inr (reply, es', ts', s'), w') \<and> well_formed s'"
proof -
  let ?ulc = "dict_get (lang_code state) (PyStr ''en'')"
  from assms obtain h sy su where v: "gemini_chat_history_manual state = Some h"
    "symptoms_en state = Some sy" "symptoms_user_lang state = Some su"
    and lang: "truthy ?ulc"
    by (auto simp: well_formed_def language_not_set_def)
  obtain pm w1 where t1: "gemini_translate gc
      (''Thank you. I'' @ apos
       @ ''m analyzing your symptoms and allergies to generate a diagnosis and drug concept. This may take a moment...'')
      (PyStr ''en'') ?ulc 0.1 w = (pm, w1)"
    by (metis prod.exhaust)
  obtain d w2 where r: "get_gemini_response gc (diagnosis_prompt (py_str sy) ume) None 0.7 w1
      = (d, w2)"
    by (metis prod.exhaust)
  obtain bu w3 where t3: "gemini_translate gc d (PyStr ''en'') ?ulc 0.1 w2 = (bu, w3)"
    by (metis prod.exhaust)
  from build_summaries_ok [of gc d "py_str sy" ume su "strip_py message" ?ulc w3]
  obtain es' ts' w4 where
    b: "build_summaries gc d (py_str sy) ume (Some su) (strip_py message) ?ulc w3
          = (Inr (es', ts'), w4)"
    by auto
  show ?thesis
    using lang v t1 r t3 b
    by (simp add: ask_allergies_def Let_def well_formed_def language_not_set_def
        stage_names_distinct stage_names_distinct [symmetric])
qed

lemma general_qna_wf:
  assumes "well_formed state" "stage state = Some (PyStr CHAT_STAGE_GENERAL_QNA)"
  shows "\<exists>reply es' ts' s' w'.
      general_qna gc ume ulc state es ts w = (Inr (reply, es', ts', s'), w') \<and> well_formed s'"
  using assms
  by (auto simp: general_qna_def Let_def well_formed_def language_not_set_def
      stage_names_distinct stage_names_distinct [symmetric] split: prod.splits)

lemma send_well_formed:
  assumes wf: "well_formed state"
  shows "\<exists>reply es ts s' w'.
      process_chat_try gc message state w = (Inr (reply, es, ts, s'), w') \<and> well_formed s'"
proof -
  from wf obtain current_stage where st: "stage state = Some current_stage"
    by (auto simp: well_formed_def)
  let ?ulc = "dict_get (lang_code state) (PyStr ''en'')"
  from process_chat_try_dispatch [OF st, of gc message w]
  obtain ume es0 ts0 w2 where d: "process_chat_try gc message state w =
       (if current_stage = PyStr CHAT_STAGE_ASK_LANGUAGE then
          ask_language gc message state es0 ts0 w2
        else if current_stage = PyStr CHAT_STAGE_ASK_SYMPTOMS then
          ask_symptoms gc message ume ?ulc state es0 ts0 w2
        else if current_stage = PyStr CHAT_STAGE_ASK_ALLERGIES then
          ask_allergies gc message ume ?ulc state es0 ts0 w2
        else if current_stage = PyStr CHAT_STAGE_GENERAL_QNA then
          general_qna gc ume ?ulc state es0 ts0 w2
        else (Inr ([], es0, ts0, state), w2))"
    by blast
  consider (lang) "current_stage = PyStr CHAT_STAGE_ASK_LANGUAGE"
    | (symp) "current_stage = PyStr CHAT_STAGE_ASK_SYMPTOMS"
    | (allerg) "current_stage = PyStr CHAT_STAGE_ASK_ALLERGIES"
    | (qna) "current_stage = PyStr CHAT_STAGE_GENERAL_QNA"
    | (other) "current_stage \<noteq> PyStr CHAT_STAGE_ASK_LANGUAGE"
        "current_stage \<noteq> PyStr CHAT_STAGE_ASK_SYMPTOMS"
        "current_stage \<noteq> PyStr CHAT_STAGE_ASK_ALLERGIES"
        "current_stage \<noteq> PyStr CHAT_STAGE_GENERAL_QNA"
    by blast
  then show ?thesis
  proof cases
    case lang
    with ask_language_wf [OF wf, of gc message es0 ts0 w2] st d show ?thesis by simp
  next
    case symp
    with ask_symptoms_wf [OF wf, of gc message ume es0 ts0 w2] st d show ?thesis
      by (simp add: stage_names_distinct stage_names_distinct [symmetric])
  next
    case allerg
    with ask_allergies_wf [OF wf, of gc message ume es0 ts0 w2] st d show ?thesis
      by (simp add: stage_names_distinct stage_names_distinct [symmetric])
  next
    case qna
    with general_qna_wf [OF wf, of gc ume ?ulc es0 ts0 w2] st d show ?thesis
      by (simp add: stage_names_distinct stage_names_distinct [symmetric])
  next
    case other
    with d wf show ?thesis by simp
  qed
qed

lemma handle_event_well_formed:
  assumes "well_formed (snd (snd (snd u)))"
  shows "well_formed (snd (snd (snd (fst (handle_event gc ev (u, w))))))"
proof (cases ev)
  case (Send message)
  obtain chatbot es ts state where u: "u = (chatbot, es, ts, state)" by (cases u) auto
  with assms have "well_formed state" by simp
  from send_well_formed [OF this, of gc message w]
  obtain reply es1 ts1 s' w' where
    ok: "process_chat_try gc message state w = (Inr (reply, es1, ts1, s'), w')"
    and wf: "well_formed s'" by blast
  from process_chat_ok [OF ok] wf Send u show ?thesis by simp
next
  case DownloadReport
  with assms show ?thesis by simp
next
  case NewConsultation
  then show ?thesis by (simp add: well_formed_initial)
qed

lemma well_formed_no_reset:
  assumes "well_formed (snd (snd (snd u)))" "ev \<noteq> NewConsultation"
  shows "\<not> reset_event gc ev (u, w)"
proof (cases ev)
  case (Send message)
  obtain chatbot es ts state where u: "u = (chatbot, es, ts, state)" by (cases u) auto
  with assms have wf: "well_formed state" by simp
  from send_well_formed [OF wf, of gc message w]
  have "\<not> turn_raises gc message state w" by (auto simp: turn_raises_def)
  moreover from wf have "\<not> language_not_set state" by (simp add: well_formed_def)
  ultimately show ?thesis using Send u by simp
next
  case DownloadReport
  then show ?thesis by simp
next
  case NewConsultation
  with assms show ?thesis by simp
qed

lemma session_run_well_formed:
  assumes "well_formed (snd (snd (snd (fst u))))"
  shows "\<forall>x \<in> set (session_run gc evs u). well_formed (snd (snd (snd (fst x))))"
  using assms
proof (induction evs arbitrary: u)
  case Nil
  then show ?case by simp
next
  case (Cons ev evs)
  obtain u0 w where u: "u = (u0, w)" by (cases u) auto
  with Cons.prems handle_event_well_formed [of u0 gc ev w]
  have "well_formed (snd (snd (snd (fst (handle_event gc ev u)))))" by simp
  from Cons.IH [OF this] Cons.prems show ?case by simp
qed

lemma opened_session_steps:
  assumes "k < length evs"
  shows "(evs ! k = NewConsultation \<longrightarrow>
            session_trace gc evs (initial_ui, w) ! Suc k = initialize_chat_state)
         \<and> (evs ! k \<noteq> NewConsultation \<longrightarrow>
            stage_step (session_trace gc evs (initial_ui, w) ! k)
              (session_trace gc evs (initial_ui, w) ! Suc k))"
proof -
  let ?R = "session_run gc evs (initial_ui, w)"
  have "well_formed (snd (snd (snd (fst (initial_ui, w)))))"
    by (simp add: initial_ui_def well_formed_initial)
  then have "\<forall>x \<in> set ?R. well_formed (snd (snd (snd (fst x))))"
    by (rule session_run_well_formed)
  moreover have "?R ! k \<in> set ?R"
    by (rule nth_mem) (use assms in \<open>simp add: session_run_length\<close>)
  ultimately have wf: "well_formed (snd (snd (snd (fst (?R ! k)))))" by blast
  obtain uk wk where x: "?R ! k = (uk, wk)" by (cases "?R ! k") auto
  with wf have wfk: "well_formed (snd (snd (snd uk)))" by simp
  note s = session_run_steps [OF assms, of gc "(initial_ui, w)"]
  show ?thesis
  proof (intro conjI impI)
    assume "evs ! k = NewConsultation"
    then have "reset_event gc (evs ! k) (?R ! k)" by simp
    with s show "session_trace gc evs (initial_ui, w) ! Suc k = initialize_chat_state"
      by blast
  next
    assume "evs ! k \<noteq> NewConsultation"
    from well_formed_no_reset [OF wfk this, of gc wk] x
    have "\<not> reset_event gc (evs ! k) (?R ! k)" by simp
    with s show "stage_step (session_trace gc evs (initial_ui, w) ! k)
              (session_trace gc evs (initial_ui, w) ! Suc k)"
      by blast
  qed
qed

lemma session_trace_run:
  "session_trace gc evs u = map (\<lambda>x. snd (snd (snd (fst x)))) (session_run gc evs u)"
  by (induction evs arbitrary: u) simp_all

lemma stage_step_qna:
  assumes "stage_step s s'" "stage s = Some (PyStr CHAT_STAGE_GENERAL_QNA)"
  shows "stage s' = Some (PyStr CHAT_STAGE_GENERAL_QNA)"
  using assms
  by (auto simp: stage_step_def turn_transitions_def stage_names_distinct
      stage_names_distinct [symmetric])

text \<open>
  Claim C2. In a session that starts when the page is opened, along every sequence of
  events, the button for a new consultation puts the initial state in place, and every
  other event leaves the stage where it is or moves it to a later position of the order
  AskLanguage, AskSymptoms, AskAllergies, GenerateResponse, GeneralQnA. From any session
  whatever, the events that reset are the button for a new consultation and the error
  resets, which are a turn that raises an exception and a turn that meets the error
  that no language is set: a reset puts the initial state in place, and every event
  that is no reset leaves the stage where it is or moves it forward, from AskLanguage to
  AskSymptoms, from AskSymptoms to AskAllergies, from AskAllergies (through
  GenerateResponse) to GeneralQnA, while GeneralQnA stays GeneralQnA. The initial state
  has the stage AskLanguage, and its other fields are empty.
\<close>

theorem stage_moves_forward_or_reset:
  "(\<forall>k<length evs.
      (evs ! k = NewConsultation \<longrightarrow>
         session_trace gc evs (initial_ui, w0) ! Suc k = initialize_chat_state)
      \<and> (evs ! k \<noteq> NewConsultation \<longrightarrow>
         stage_forward (session_trace gc evs (initial_ui, w0) ! k)
           (session_trace gc evs (initial_ui, w0) ! Suc k)
         \<and> stage_step (session_trace gc evs (initial_ui, w0) ! k)
           (session_trace gc evs (initial_ui, w0) ! Suc k)))
   \<and> (\<forall>k<length evs.
      (reset_event gc (evs ! k) (session_run gc evs u ! k) \<longrightarrow>
         session_trace gc evs u ! Suc k = initialize_chat_state)
      \<and> (\<not> reset_event gc (evs ! k) (session_run gc evs u ! k) \<longrightarrow>
         stage_forward (session_trace gc evs u ! k) (session_trace gc evs u ! Suc k)
         \<and> stage_step (session_trace gc evs u ! k) (session_trace gc evs u ! Suc k)))
   \<and> (\<forall>k<length evs.
      \<not> reset_event gc (evs ! k) (session_run gc evs u ! k)
      \<and> stage (session_trace gc evs u ! k) = Some (PyStr CHAT_STAGE_GENERAL_QNA) \<longrightarrow>
      stage (session_trace gc evs u ! Suc k) = Some (PyStr CHAT_STAGE_GENERAL_QNA))
   \<and> session_trace gc evs u = map (\<lambda>x. snd (snd (snd (fst x)))) (session_run gc evs u)
   \<and> initialize_chat_state =
       \<lparr>stage = Some (PyStr ''ask_language''), language = Some PyNone, lang_code = Some PyNone,
        symptoms_user_lang = Some PyNone, symptoms_en = Some PyNone,
        allergies_user_lang = Some PyNone, allergies_en = Some PyNone,
        diagnosis_en = Some PyNone, drug_concept_full_en = Some PyNone,
        gemini_chat_history_manual = Some [], translated_summary = None\<rparr>"
proof -
  have A: "\<forall>k<length evs.
      (evs ! k = NewConsultation \<longrightarrow>
         session_trace gc evs (initial_ui, w0) ! Suc k = initialize_chat_state)
      \<and> (evs ! k \<noteq> NewConsultation \<longrightarrow>
         stage_forward (session_trace gc evs (initial_ui, w0) ! k)
           (session_trace gc evs (initial_ui, w0) ! Suc k)
         \<and> stage_step (session_trace gc evs (initial_ui, w0) ! k)
           (session_trace gc evs (initial_ui, w0) ! Suc k))"
    using opened_session_steps [of _ evs gc w0] stage_step_forward by blast
  have B: "\<forall>k<length evs.
      (reset_event gc (evs ! k) (session_run gc evs u ! k) \<longrightarrow>
         session_trace gc evs u ! Suc k = initialize_chat_state)
      \<and> (\<not> reset_event gc (evs ! k) (session_run gc evs u ! k) \<longrightarrow>
         stage_forward (session_trace gc evs u ! k) (session_trace gc evs u ! Suc k)
         \<and> stage_step (session_trace gc evs u ! k) (session_trace gc evs u ! Suc k))"
    using session_run_steps [of _ evs gc u] stage_step_forward by blast
  have C: "\<forall>k<length evs.
      \<not> reset_event gc (evs ! k) (session_run gc evs u ! k)
      \<and> stage (session_trace gc evs u ! k) = Some (PyStr CHAT_STAGE_GENERAL_QNA) \<longrightarrow>
      stage (session_trace gc evs u ! Suc k) = Some (PyStr CHAT_STAGE_GENERAL_QNA)"
    using B stage_step_qna by blast
  from A B C session_trace_run [of gc evs u] initialize_chat_state_fields
  show ?thesis by blast
qed

theorem stage_moves_forward_or_reset_witness:
  "stage_forward (session_trace None [Send ''english'', NewConsultation] (initial_ui, ()) ! 0)
        (session_trace None [Send ''english'', NewConsultation] (initial_ui, ()) ! 1)
   \<and> stage (session_trace None [Send ''english'', NewConsultation] (initial_ui, ()) ! 1)
       = Some (PyStr CHAT_STAGE_ASK_SYMPTOMS)
   \<and> session_trace None [Send ''english'', NewConsultation] (initial_ui, ()) ! 2
       = initialize_chat_state
   \<and> reset_event None (Send ''hello'') (([], [], [], sample_broken_state), ())
   \<and> session_trace None [Send ''hello''] (([], [], [], sample_broken_state), ()) ! 1
       = initialize_chat_state
   \<and> reset_event None (Send ''cough'') (([], [], [], sample_no_language_state), ())
   \<and> session_trace None [Send ''cough''] (([], [], [], sample_no_language_state), ()) ! 1
       = initialize_chat_state
   \<and> \<not> reset_event None (Send ''why?'') (([], [], [], sample_qna_state), ())
   \<and> stage (session_trace None [Send ''why?''] (([], [], [], sample_qna_state), ()) ! 1)
       = Some (PyStr CHAT_STAGE_GENERAL_QNA)"
proof -
  let ?e1 = "[Send ''english'', NewConsultation]"
  let ?t1 = "session_trace None ?e1 (initial_ui, ())"
  let ?ub = "(([], [], [], sample_broken_state), ())"
  let ?un = "(([], [], [], sample_no_language_state), ())"
  let ?uq = "(([], [], [], sample_qna_state), ())"
  note T1 = stage_moves_forward_or_reset [of ?e1 None "()" ?ub]
  note Tb = stage_moves_forward_or_reset [of "[Send ''hello'']" None "()" ?ub]
  note Tn = stage_moves_forward_or_reset [of "[Send ''cough'']" None "()" ?un]
  note Tq = stage_moves_forward_or_reset [of "[Send ''why?'']" None "()" ?uq]
  have k0: "(0::nat) < length ?e1" "?e1 ! 0 \<noteq> NewConsultation" by simp_all
  have k1: "(1::nat) < length ?e1" "?e1 ! 1 = NewConsultation" by simp_all
  from T1 k0 have a: "stage_forward (?t1 ! 0) (?t1 ! Suc 0)" by blast
  from T1 k1 have b: "?t1 ! Suc 1 = initialize_chat_state" by blast
  have c: "stage (?t1 ! 1) = Some (PyStr CHAT_STAGE_ASK_SYMPTOMS)" by code_simp
  have rb: "reset_event None (Send ''hello'') ?ub" by code_simp
  have rn: "reset_event None (Send ''cough'') ?un" by code_simp
  have rq: "\<not> reset_event None (Send ''why?'') ?uq" by code_simp
  have l: "(0::nat) < length [Send ''hello'']" "(0::nat) < length [Send ''cough'']"
    "(0::nat) < length [Send ''why?'']" by simp_all
  have h: "session_run None [Send ''hello''] ?ub ! 0 = ?ub"
    "session_run None [Send ''cough''] ?un ! 0 = ?un"
    "session_run None [Send ''why?''] ?uq ! 0 = ?uq"
    by (simp_all add: session_run_hd)
  from Tb l(1) rb h(1)
  have d: "session_trace None [Send ''hello''] ?ub ! Suc 0 = initialize_chat_state"
    by (metis nth_Cons_0)
  from Tn l(2) rn h(2)
  have e: "session_trace None [Send ''cough''] ?un ! Suc 0 = initialize_chat_state"
    by (metis nth_Cons_0)
  have q0: "stage (session_trace None [Send ''why?''] ?uq ! 0) = Some (PyStr CHAT_STAGE_GENERAL_QNA)"
    by (simp add: sample_qna_state_def)
  from Tq l(3) rq h(3) q0
  have f: "stage (session_trace None [Send ''why?''] ?uq ! Suc 0)
      = Some (PyStr CHAT_STAGE_GENERAL_QNA)"
    by (metis nth_Cons_0)
  from a b c d e f rb rn rq show ?thesis by (simp add: numeral_2_eq_2)
qed

end
